theory Spec2Isabelle
  imports Complex_Main "HOL-Library.AList" "HOL-Library.Log_Nat"
begin

section \<open>Python dictionaries\<close>

text \<open>
  A Python \<open>dict\<close> keeps its keys in insertion order and holds each key once. It is
  modelled as an association list; the assignment \<open>d[k] = v\<close> is \<open>AList.update k v d\<close>
  (the value is replaced in place when the key is present, the pair is appended
  otherwise) and the lookup is \<open>map_of d k\<close>.
\<close>

type_synonym ('k, 'v) dict = "('k \<times> 'v) list"

section \<open>DXF version tables (io_import_dxf/dxfgrabber/const.py)\<close>

definition acadrelease :: "(string, string) dict" where
  "acadrelease =
     [(''AC1009'', ''R12''),
      (''AC1012'', ''R13''),
      (''AC1014'', ''R14''),
      (''AC1015'', ''R2000''),
      (''AC1018'', ''R2004''),
      (''AC1021'', ''R2007''),
      (''AC1024'', ''R2010'')]"

text \<open>
  \<^verbatim>\<open>dxfversion = {acad: dxf for dxf, acad in acadrelease.items()}\<close>:
  the comprehension walks the items of \<open>acadrelease\<close> in order and stores
  \<open>dxf\<close> under the key \<open>acad\<close>.
\<close>

definition dxfversion :: "(string, string) dict" where
  "dxfversion = fold (\<lambda>(dxf, acad) d. AList.update acad dxf d) acadrelease []"

section \<open>Sheen material extension (gltf2_blender_gather_materials_sheen.py)\<close>

text \<open>
  The function \<open>export_sheen\<close> reads two sockets of a material through the exporter's
  socket reader (\<open>gltf2_blender_get\<close>, \<open>gltf2_blender_gather_texture_info\<close>), which is
  not part of the file. What the reader answers for a socket is a field of the socket
  record:
  \<^item> \<open>is_node_socket\<close>: \<^verbatim>\<open>isinstance(socket, bpy.types.NodeSocket)\<close>;
  \<^item> \<open>is_linked\<close>, \<open>default_value\<close>: the attributes of the socket;
  \<^item> \<open>factor_from_socket\<close>: the result of \<^verbatim>\<open>get_factor_from_socket(socket, kind=...)\<close>,
    \<open>None\<close> when no factor is found (for the colour socket a list of numbers, which
    the function compares with the list \<^verbatim>\<open>[0.0, 0.0, 0.0]\<close>);
  \<^item> \<open>has_image_node\<close>: the result of \<^verbatim>\<open>has_image_node_from_socket(socket)\<close>;
  \<^item> \<open>texture_info\<close>: the first two components of the result of
    \<^verbatim>\<open>gather_texture_info(socket, (socket,), (), export_settings)\<close>.

  Socket values are floating-point numbers that the function stores and compares with
  the constants 0.0 and 1.0 only; no arithmetic is done on them. They are modelled as
  rationals. The default value of the colour socket is an array (RGBA), that of the
  roughness socket a scalar.
\<close>

record ('v, 't, 'u) socket =
  is_node_socket :: bool
  is_linked :: bool
  default_value :: 'v
  factor_from_socket :: "'v option"
  has_image_node :: bool
  texture_info :: "'t \<times> 'u"

text \<open>
  \<^verbatim>\<open>get_socket(blender_material, "sheenColor")\<close> and
  \<^verbatim>\<open>get_socket(blender_material, "sheenRoughness")\<close>: \<open>None\<close> when the
  material has no such socket.
\<close>

record ('t, 'u) material =
  sheenColor :: "(rat list, 't, 'u) socket option"
  sheenRoughness :: "(rat, 't, 'u) socket option"

text \<open>The values stored in the \<open>sheen_extension\<close> dictionary.\<close>

datatype 't sheen_value = RGB "rat list" | Value rat | TextureInfo 't

text \<open>\<^verbatim>\<open>Extension(name, extension, required)\<close>\<close>

record 't extension =
  ext_name :: string
  ext_data :: "(string, 't sheen_value) dict"
  ext_required :: bool

text \<open>Lines 25 to 46: the colour socket.\<close>

definition export_sheen_color ::
  "(rat list, 't, 'u) socket \<Rightarrow> (string, 't sheen_value) dict \<times> (string, 'u) dict
     \<Rightarrow> (string, 't sheen_value) dict \<times> (string, 'u) dict" where
  "export_sheen_color sheenColor_socket st =
     (let (sheen_extension, uvmap_infos) = st;
          sheenColor_non_linked =
            (is_node_socket sheenColor_socket \<and> \<not> is_linked sheenColor_socket)
      in if sheenColor_non_linked then
           (let color = take 3 (default_value sheenColor_socket)
            in if color \<noteq> [0, 0, 0]
               then (AList.update ''sheenColorFactor'' (RGB color) sheen_extension, uvmap_infos)
               else (sheen_extension, uvmap_infos))
         else
           (let fac = (case factor_from_socket sheenColor_socket of
                         None \<Rightarrow> [1, 1, 1] | Some f \<Rightarrow> f);
                sheen_extension =
                  (if fac \<noteq> [0, 0, 0]
                   then AList.update ''sheenColorFactor'' (RGB fac) sheen_extension
                   else sheen_extension)
            in if has_image_node sheenColor_socket then
                 (let (original_sheenColor_texture, uvmap_info) = texture_info sheenColor_socket
                  in (AList.update ''sheenColorTexture''
                        (TextureInfo original_sheenColor_texture) sheen_extension,
                      AList.update ''sheenColorTexture'' uvmap_info uvmap_infos))
               else (sheen_extension, uvmap_infos)))"

text \<open>Lines 48 to 69: the roughness socket.\<close>

definition export_sheen_roughness ::
  "(rat, 't, 'u) socket \<Rightarrow> (string, 't sheen_value) dict \<times> (string, 'u) dict
     \<Rightarrow> (string, 't sheen_value) dict \<times> (string, 'u) dict" where
  "export_sheen_roughness sheenRoughness_socket st =
     (let (sheen_extension, uvmap_infos) = st;
          sheenRoughness_non_linked =
            (is_node_socket sheenRoughness_socket \<and> \<not> is_linked sheenRoughness_socket)
      in if sheenRoughness_non_linked then
           (let fac = default_value sheenRoughness_socket
            in if fac \<noteq> 0
               then (AList.update ''sheenRoughnessFactor'' (Value fac) sheen_extension, uvmap_infos)
               else (sheen_extension, uvmap_infos))
         else
           (let fac = (case factor_from_socket sheenRoughness_socket of
                         None \<Rightarrow> 1 | Some f \<Rightarrow> f);
                sheen_extension =
                  (if fac \<noteq> 0
                   then AList.update ''sheenRoughnessFactor'' (Value fac) sheen_extension
                   else sheen_extension)
            in if has_image_node sheenRoughness_socket then
                 (let (original_sheenRoughness_texture, uvmap_info) =
                        texture_info sheenRoughness_socket
                  in (AList.update ''sheenRoughnessTexture''
                        (TextureInfo original_sheenRoughness_texture) sheen_extension,
                      AList.update ''sheenRoughnessTexture'' uvmap_info uvmap_infos))
               else (sheen_extension, uvmap_infos)))"

text \<open>
  The whole function: the guard of line 17 returns \<open>(None, {})\<close>; otherwise the two
  blocks run one after the other on the same pair of dictionaries.
\<close>

definition export_sheen ::
  "('t, 'u) material \<Rightarrow> 't extension option \<times> (string, 'u) dict" where
  "export_sheen blender_material =
     (case (sheenColor blender_material, sheenRoughness blender_material) of
        (Some sheenColor_socket, Some sheenRoughness_socket) \<Rightarrow>
          (let (sheen_extension, uvmap_infos) =
                 export_sheen_roughness sheenRoughness_socket
                   (export_sheen_color sheenColor_socket ([], []))
           in (Some \<lparr>ext_name = ''KHR_materials_sheen'', ext_data = sheen_extension,
                      ext_required = False\<rparr>,
               uvmap_infos))
      | _ \<Rightarrow> (None, []))"

section \<open>Tongue rig (rigify/rigs/face/basic_tongue.py)\<close>

subsection \<open>The host armature\<close>

text \<open>
  The rig class works on the armature of the host application through rigify's utility
  functions. Every failure of the Python code is a value of \<open>error\<close>: a function that
  can raise returns \<open>error + 'a\<close>, with \<open>Inl\<close> for the exception.
\<close>

datatype error =
    MetarigError string
  | KeyError string
  | IndexError
  | AttributeError string
  | ZeroDivisionError
  | OverflowError

text \<open>
  A bone has a name, a head and a tail position (of an abstract vector type \<open>'p\<close>: the
  rig only copies and swaps positions), a roll and a parent reference by name.
\<close>

record 'p bone =
  bone_name :: string
  head :: 'p
  tail :: 'p
  roll :: rat
  parent :: "string option"

text \<open>
  A constraint of a pose bone. The influence is the Python \<open>float\<close> that the rig
  passes to \<open>make_constraint\<close>: a finite double, modelled as the rational number it
  denotes.
\<close>

record constraint =
  con_owner :: string
  con_type :: string
  con_subtarget :: string
  con_influence :: rat

text \<open>The armature: its bones in the order of their creation, and the constraints.\<close>

record 'p armature =
  edit_bones :: "'p bone list"
  constraints :: "constraint list"

text \<open>
  The naming functions of the host are parameters of the model:
  \<open>make_derived_name\<close> is rigify's function of that name, and \<open>unique_name existing name\<close>
  is the name the host gives to a new bone asked for under \<open>name\<close>.
\<close>

record naming =
  make_derived_name :: "string \<Rightarrow> string \<Rightarrow> string"
  unique_name :: "string list \<Rightarrow> string \<Rightarrow> string"

definition bone_names :: "'p armature \<Rightarrow> string list" where
  "bone_names arm = map bone_name (edit_bones arm)"

definition get_bone :: "'p armature \<Rightarrow> string \<Rightarrow> 'p bone option" where
  "get_bone arm name = find (\<lambda>b. bone_name b = name) (edit_bones arm)"

definition update_bone :: "string \<Rightarrow> ('p bone \<Rightarrow> 'p bone) \<Rightarrow> 'p armature \<Rightarrow> 'p armature" where
  "update_bone name f arm =
     arm\<lparr>edit_bones := map (\<lambda>b. if bone_name b = name then f b else b) (edit_bones arm)\<rparr>"

text \<open>
  The host skeleton API of section 6 of the spec (create a bone, set head, tail and
  roll, set the parent, add a constraint of a named type with an influence) is used
  through rigify's utility functions \<open>copy_bone\<close>, \<open>flip_bone\<close>,
  \<open>copy_bone_position\<close>, \<open>set_bone_parent\<close> and \<open>make_constraint\<close>, which are not in
  the source files. In each of them a bone name that the armature does not have is
  an error.
\<close>

text \<open>
  Modelled from the spec: \<open>copy_bone\<close> (not in the source files), "create a bone":
  a new bone with the head, tail and roll of the bone \<open>name\<close>, and its parent when
  \<open>with_parent\<close> is set, is added to the armature under the name the host gives it.
\<close>

definition copy_bone ::
  "naming \<Rightarrow> 'p armature \<Rightarrow> string \<Rightarrow> string \<Rightarrow> bool \<Rightarrow> error + (string \<times> 'p armature)" where
  "copy_bone nm arm name assign_name with_parent =
     (case get_bone arm name of
        None \<Rightarrow> Inl (MetarigError name)
      | Some b \<Rightarrow>
          (let name2 = unique_name nm (bone_names arm) assign_name;
               b2 = \<lparr>bone_name = name2, head = head b, tail = tail b, roll = roll b,
                     parent = (if with_parent then parent b else None)\<rparr>
           in Inr (name2, arm\<lparr>edit_bones := edit_bones arm @ [b2]\<rparr>)))"

text \<open>
  Modelled from the spec: \<open>flip_bone\<close> (not in the source files), "mirror its
  orientation (flip head/tail)": the head and the tail of the bone are swapped.
\<close>

definition flip_bone :: "'p armature \<Rightarrow> string \<Rightarrow> error + 'p armature" where
  "flip_bone arm name =
     (case get_bone arm name of
        None \<Rightarrow> Inl (KeyError name)
      | Some b \<Rightarrow> Inr (update_bone name (\<lambda>b. b\<lparr>head := tail b, tail := head b\<rparr>) arm))"

text \<open>
  Modelled from the spec: \<open>copy_bone_position\<close> (not in the source files), "set
  head/tail/roll": the bone \<open>target_name\<close> gets the head, tail and roll of the bone
  \<open>name\<close>.
\<close>

definition copy_bone_position :: "'p armature \<Rightarrow> string \<Rightarrow> string \<Rightarrow> error + 'p armature" where
  "copy_bone_position arm name target_name =
     (case get_bone arm name of
        None \<Rightarrow> Inl (KeyError name)
      | Some b1 \<Rightarrow>
          (case get_bone arm target_name of
             None \<Rightarrow> Inl (KeyError target_name)
           | Some b2 \<Rightarrow>
               Inr (update_bone target_name
                      (\<lambda>b. b\<lparr>head := head b1, tail := tail b1, roll := roll b1\<rparr>) arm)))"

text \<open>
  Modelled from the spec: \<open>set_bone_parent\<close> (not in the source files), "set parent":
  the parent reference of the bone becomes \<open>parent_name\<close>, which is \<open>None\<close> or the
  name of a bone of the armature.
\<close>

definition set_bone_parent :: "'p armature \<Rightarrow> string \<Rightarrow> string option \<Rightarrow> error + 'p armature" where
  "set_bone_parent arm name parent_name =
     (case get_bone arm name of
        None \<Rightarrow> Inl (KeyError name)
      | Some b \<Rightarrow>
          (case parent_name of
             None \<Rightarrow> Inr (update_bone name (\<lambda>b. b\<lparr>parent := None\<rparr>) arm)
           | Some p \<Rightarrow>
               (case get_bone arm p of
                  None \<Rightarrow> Inl (KeyError p)
                | Some pb \<Rightarrow> Inr (update_bone name (\<lambda>b. b\<lparr>parent := Some p\<rparr>) arm))))"

text \<open>
  Modelled from the spec: \<open>make_constraint\<close> (not in the source files), "add a
  constraint of a named type with an influence parameter": the constraint is appended
  to the constraints of the armature, owned by the bone \<open>owner\<close>.
\<close>

definition make_constraint ::
  "'p armature \<Rightarrow> string \<Rightarrow> string \<Rightarrow> string \<Rightarrow> rat \<Rightarrow> error + 'p armature" where
  "make_constraint arm owner ctype subtarget influence =
     (case get_bone arm owner of
        None \<Rightarrow> Inl (KeyError owner)
      | Some b \<Rightarrow>
          Inr (arm\<lparr>constraints := constraints arm @
                 [\<lparr>con_owner = owner, con_type = ctype, con_subtarget = subtarget,
                   con_influence = influence\<rparr>]\<rparr>))"

subsection \<open>Python floating-point arithmetic\<close>

text \<open>
  A Python \<open>float\<close> is an IEEE 754 double: a number \<open>m * 2 ^ e\<close> with an integer \<open>m\<close> of
  at most 53 bits; the normal numbers start at \<open>2 ^ -1022\<close>, the numbers below are
  spaced \<open>2 ^ -1074\<close> apart, and \<open>2 ^ 1024\<close> is out of range. A finite double is
  modelled as the rational number it denotes. An operation computes the exact result
  and rounds it to the nearest double; of two nearest doubles, the one with the even
  significand is taken.
\<close>

text \<open>Rounding to the nearest integer, a tie to the even one.\<close>

definition round_half_even :: "rat \<Rightarrow> int" where
  "round_half_even q =
     (let f = \<lfloor>q\<rfloor>; r = q - of_int f
      in if r < 1/2 then f
         else if 1/2 < r then f + 1
         else if even f then f else f + 1)"

text \<open>The exponent \<open>e\<close> of a positive number \<open>x\<close>: \<open>2 ^ e \<le> x < 2 ^ (e + 1)\<close>.\<close>

definition float_exponent :: "rat \<Rightarrow> int" where
  "float_exponent x =
     (if 1 \<le> x then bitlen \<lfloor>x\<rfloor> - 1 else - bitlen (\<lceil>1 / x\<rceil> - 1))"

text \<open>
  The double nearest to \<open>x\<close>. The spacing of the doubles around \<open>x\<close> is
  \<open>2 ^ (e - 52)\<close> for the exponent \<open>e\<close> of \<open>\<bar>x\<bar>\<close>, and \<open>2 ^ -1074\<close> below the normal
  numbers. The range is not checked here.
\<close>

definition round_double :: "rat \<Rightarrow> rat" where
  "round_double x =
     (if x = 0 then 0
      else (let a = \<bar>x\<bar>;
                ulp = 2 powi (max (float_exponent a) (- 1022) - 52)
            in sgn x * of_int (round_half_even (a / ulp)) * ulp))"

text \<open>
  \<^verbatim>\<open>a / b\<close> on two Python integers: the true division gives the double nearest to
  the exact quotient, and raises \<open>ZeroDivisionError\<close> for a zero divisor and
  \<open>OverflowError\<close> when the result is too large for a double.
\<close>

definition int_truediv :: "int \<Rightarrow> int \<Rightarrow> error + rat" where
  "int_truediv a b =
     (if b = 0 then Inl ZeroDivisionError
      else (let r = round_double (of_int a / of_int b)
            in if 2 powi 1024 \<le> \<bar>r\<bar> then Inl OverflowError else Inr r))"

text \<open>
  \<^verbatim>\<open>a - b\<close> on two doubles (an integer operand is converted first; 1 is a double).
  The difference of 1 and a finite double is within the range of the doubles.
\<close>

definition float_sub :: "rat \<Rightarrow> rat \<Rightarrow> rat" where
  "float_sub a b = round_double (a - b)"

subsection \<open>The rig instance\<close>

text \<open>
  \<open>self.bones\<close>: the original chain, the master control (unset until
  \<open>make_control_chain\<close> has run), the tweak controls of the inherited chain template
  and the follow mechanism bones.
\<close>

record rig_bones =
  org :: "string list"
  ctrl_master :: "string option"
  ctrl_tweak :: "string list"
  mch_follow :: "string list"

record rig_params =
  bbones :: int

record 'p rig =
  obj :: "'p armature"
  bones :: rig_bones
  base_bone :: string
  rig_parent_bone :: "string option"
  params :: rig_params
  bbone_segments :: "int option"

definition min_chain_length :: nat where
  "min_chain_length = 3"

text \<open>
  \<open>initialize\<close>: the inherited \<open>initialize\<close> (not in the source files) is the parameter
  \<open>super_initialize\<close>.
\<close>

definition initialize :: "('p rig \<Rightarrow> 'p rig) \<Rightarrow> 'p rig \<Rightarrow> 'p rig" where
  "initialize super_initialize self =
     (let self = super_initialize self
      in self\<lparr>bbone_segments := Some (bbones (params self))\<rparr>)"

text \<open>Loops over a list that thread the armature and stop at the first error.\<close>

fun for_each :: "('a \<Rightarrow> 's \<Rightarrow> error + 's) \<Rightarrow> 'a list \<Rightarrow> 's \<Rightarrow> error + 's" where
  "for_each f [] s = Inr s"
| "for_each f (x # xs) s =
     (case f x s of Inl e \<Rightarrow> Inl e | Inr s' \<Rightarrow> for_each f xs s')"

text \<open>
  \<^verbatim>\<open>map_list(func, *inputs)\<close> is \<^verbatim>\<open>list(map(func, *inputs))\<close>; the function
  called here changes the armature, which is threaded through the calls.
\<close>

fun map_list :: "('a \<Rightarrow> 's \<Rightarrow> error + ('b \<times> 's)) \<Rightarrow> 'a list \<Rightarrow> 's \<Rightarrow> error + ('b list \<times> 's)" where
  "map_list f [] s = Inr ([], s)"
| "map_list f (x # xs) s =
     (case f x s of
        Inl e \<Rightarrow> Inl e
      | Inr (y, s') \<Rightarrow>
          (case map_list f xs s' of
             Inl e \<Rightarrow> Inl e
           | Inr (ys, s'') \<Rightarrow> Inr (y # ys, s'')))"

text \<open>\<^verbatim>\<open>zip(count(n), xs)\<close> and \<^verbatim>\<open>enumerate(xs)\<close>.\<close>

definition zip_count :: "nat \<Rightarrow> 'a list \<Rightarrow> (nat \<times> 'a) list" where
  "zip_count n xs = zip [n ..< n + length xs] xs"

definition enumerate_list :: "'a list \<Rightarrow> (nat \<times> 'a) list" where
  "enumerate_list xs = zip_count 0 xs"

subsection \<open>Control chain\<close>

definition make_control_chain :: "naming \<Rightarrow> 'p rig \<Rightarrow> error + 'p rig" where
  "make_control_chain nm self =
     (case org (bones self) of
        [] \<Rightarrow> Inl IndexError
      | org0 # _ \<Rightarrow>
          (case copy_bone nm (obj self) org0 (make_derived_name nm org0 ''ctrl'') True of
             Inl e \<Rightarrow> Inl e
           | Inr (name, arm) \<Rightarrow>
               (case flip_bone arm name of
                  Inl e \<Rightarrow> Inl e
                | Inr arm' \<Rightarrow>
                    Inr (self\<lparr>obj := arm', bones := (bones self)\<lparr>ctrl_master := Some name\<rparr>\<rparr>))))"

subsection \<open>Mechanism chain\<close>

definition make_mch_follow_bone ::
  "naming \<Rightarrow> string \<Rightarrow> nat \<Rightarrow> string \<Rightarrow> 'p armature \<Rightarrow> error + (string \<times> 'p armature)" where
  "make_mch_follow_bone nm base i org_bone arm =
     (case copy_bone nm arm org_bone (make_derived_name nm org_bone ''mch'') False of
           Inl e \<Rightarrow> Inl e
         | Inr (name, arm1) \<Rightarrow>
             (case copy_bone_position arm1 base name of
                Inl e \<Rightarrow> Inl e
              | Inr arm2 \<Rightarrow>
                  (case flip_bone arm2 name of
                     Inl e \<Rightarrow> Inl e
                   | Inr arm3 \<Rightarrow> Inr (name, arm3))))"

definition make_follow_chain :: "naming \<Rightarrow> 'p rig \<Rightarrow> error + 'p rig" where
  "make_follow_chain nm self =
     (case map_list (\<lambda>(i, org_bone). make_mch_follow_bone nm (base_bone self) i org_bone)
             (zip_count 1 (tl (org (bones self)))) (obj self) of
        Inl e \<Rightarrow> Inl e
      | Inr (names, arm) \<Rightarrow>
          Inr (self\<lparr>obj := arm, bones := (bones self)\<lparr>mch_follow := names\<rparr>\<rparr>))"

definition parent_follow_chain :: "'p rig \<Rightarrow> error + 'p rig" where
  "parent_follow_chain self =
     (case for_each (\<lambda>mch arm. set_bone_parent arm mch (rig_parent_bone self))
             (mch_follow (bones self)) (obj self) of
        Inl e \<Rightarrow> Inl e
      | Inr arm \<Rightarrow> Inr (self\<lparr>obj := arm\<rparr>))"

text \<open>
  The influence of line 96, \<^verbatim>\<open>1-(1+i)/num_orgs\<close>: the sum \<open>1+i\<close> is an integer, the
  division a true division of two integers, the subtraction one of doubles.
\<close>

definition follow_influence :: "nat \<Rightarrow> nat \<Rightarrow> error + rat" where
  "follow_influence i num_orgs =
     (case int_truediv (1 + int i) (int num_orgs) of
        Inl e \<Rightarrow> Inl e
      | Inr q \<Rightarrow> Inr (float_sub 1 q))"

definition rig_follow_chain :: "'p rig \<Rightarrow> error + 'p rig" where
  "rig_follow_chain self =
     (case ctrl_master (bones self) of
        None \<Rightarrow> Inl (AttributeError ''master'')
      | Some master \<Rightarrow>
          (let num_orgs = length (org (bones self))
           in case for_each
                     (\<lambda>(i, mch) arm.
                        case follow_influence i num_orgs of
                          Inl e \<Rightarrow> Inl e
                        | Inr influence \<Rightarrow>
                            make_constraint arm mch ''COPY_TRANSFORMS'' master influence)
                     (enumerate_list (mch_follow (bones self))) (obj self) of
                Inl e \<Rightarrow> Inl e
              | Inr arm \<Rightarrow> Inr (self\<lparr>obj := arm\<rparr>)))"

subsection \<open>Tweak chain\<close>

definition parent_tweak_chain :: "'p rig \<Rightarrow> error + 'p rig" where
  "parent_tweak_chain self =
     (case ctrl_master (bones self) of
        None \<Rightarrow> Inl (AttributeError ''master'')
      | Some master \<Rightarrow>
          (let parents = Some master # map Some (mch_follow (bones self)) @ [rig_parent_bone self]
           in case for_each (\<lambda>(tweak, main) arm. set_bone_parent arm tweak main)
                     (zip (ctrl_tweak (bones self)) parents) (obj self) of
                Inl e \<Rightarrow> Inl e
              | Inr arm \<Rightarrow> Inr (self\<lparr>obj := arm\<rparr>)))"

subsection \<open>Settings\<close>

text \<open>\<^verbatim>\<open>bpy.props.IntProperty(name=..., default=..., min=..., description=...)\<close>\<close>

record int_property =
  prop_name :: string
  prop_default :: int
  prop_min :: int
  prop_description :: string

text \<open>
  \<open>add_parameters\<close>: the registration of the layer option
  (\<^verbatim>\<open>ControlLayersOption.SKIN_PRIMARY.add_parameters\<close>, not in the source files) is
  the parameter \<open>layers_add_parameters\<close>.
\<close>

definition add_parameters ::
  "((string, int_property) dict \<Rightarrow> (string, int_property) dict)
     \<Rightarrow> (string, int_property) dict \<Rightarrow> (string, int_property) dict" where
  "add_parameters layers_add_parameters params_group =
     layers_add_parameters
       (AList.update ''bbones''
          \<lparr>prop_name = ''B-Bone Segments'', prop_default = 10, prop_min = 1,
            prop_description = ''Number of B-Bone segments''\<rparr>
          params_group)"

subsection \<open>Instantiation of the rig\<close>

text \<open>
  Modelled from the spec: the chain-length check made when the rig is instantiated
  (the inherited \<open>find_org_bones\<close> and the generator that calls it are not in the
  source files). Sections 4.1 and 7: a chain shorter than \<open>min_chain_length\<close> is a
  configuration error; the generator aborts the build of this rig and reports a
  descriptive error to the host build report, and the rest of the armature is left as
  it was. The build is a pair of the build report and the armature; the stages of
  the rig run on the instance returned, so without an instance none of them runs.
\<close>

definition find_org_bones :: "string list \<Rightarrow> error + string list" where
  "find_org_bones chain =
     (if length chain < min_chain_length
      then Inl (MetarigError ''Input to rig type must be a chain of 3 or more bones.'')
      else Inr chain)"

text \<open>
  Modelled from the spec: the instantiation of the rig by the generator (not in the
  source files). On a configuration error the error is appended to the build report,
  the armature is the one given and there is no instance; otherwise the instance
  holds the chain and the armature.
\<close>

definition instantiate_rig ::
  "string list \<Rightarrow> string \<Rightarrow> string option \<Rightarrow> rig_params \<Rightarrow> error list \<times> 'p armature
     \<Rightarrow> (error list \<times> 'p armature) \<times> 'p rig option" where
  "instantiate_rig chain base rig_parent ps build =
     (let (report, arm) = build
      in case find_org_bones chain of
           Inl e \<Rightarrow> ((report @ [e], arm), None)
         | Inr orgs \<Rightarrow>
             ((report, arm),
              Some \<lparr>obj = arm,
                    bones = \<lparr>org = orgs, ctrl_master = None, ctrl_tweak = [], mch_follow = []\<rparr>,
                    base_bone = base, rig_parent_bone = rig_parent, params = ps,
                    bbone_segments = None\<rparr>))"

section \<open>Readers and example inputs used in the statements\<close>

text \<open>
  What the extension record returned by \<open>export_sheen\<close> holds under a key (\<open>None\<close> when
  no record is returned or the record has no such key), and what the auxiliary
  mapping holds under a key.
\<close>

definition sheen_recorded :: "('t, 'u) material \<Rightarrow> string \<Rightarrow> 't sheen_value option" where
  "sheen_recorded blender_material key =
     (case fst (export_sheen blender_material) of
        None \<Rightarrow> None
      | Some ext \<Rightarrow> map_of (ext_data ext) key)"

definition uvmap_recorded :: "('t, 'u) material \<Rightarrow> string \<Rightarrow> 'u option" where
  "uvmap_recorded blender_material key = map_of (snd (export_sheen blender_material)) key"

text \<open>A socket linked to an image texture, with no factor node in between.\<close>

definition image_socket :: "'v \<Rightarrow> string \<Rightarrow> ('v, string, string) socket" where
  "image_socket v name =
     \<lparr>is_node_socket = True, is_linked = True, default_value = v,
      factor_from_socket = None, has_image_node = True,
      texture_info = (name, ''UVMap'')\<rparr>"

text \<open>An unlinked socket holding the value \<open>v\<close>.\<close>

definition plain_socket :: "'v \<Rightarrow> ('v, string, string) socket" where
  "plain_socket v =
     \<lparr>is_node_socket = True, is_linked = False, default_value = v,
      factor_from_socket = None, has_image_node = False,
      texture_info = (''none'', ''none'')\<rparr>"

definition textured_material :: "(string, string) material" where
  "textured_material =
     \<lparr>sheenColor = Some (image_socket [0, 0, 0, 1] ''color.png''),
      sheenRoughness = Some (image_socket 0 ''rough.png'')\<rparr>"

definition textured_color_only_material :: "(string, string) material" where
  "textured_color_only_material =
     \<lparr>sheenColor = Some (image_socket [0, 0, 0, 1] ''color.png''), sheenRoughness = None\<rparr>"

definition plain_material :: "(string, string) material" where
  "plain_material =
     \<lparr>sheenColor = Some (plain_socket [1/2, 1/4, 0, 1]),
      sheenRoughness = Some (plain_socket (3/10))\<rparr>"

definition color_only_material :: "(string, string) material" where
  "color_only_material =
     \<lparr>sheenColor = Some (plain_socket [1/2, 1/4, 0, 1]), sheenRoughness = None\<rparr>"

definition roughness_only_material :: "(string, string) material" where
  "roughness_only_material =
     \<lparr>sheenColor = None, sheenRoughness = Some (plain_socket (3/10))\<rparr>"

definition no_sheen_material :: "(string, string) material" where
  "no_sheen_material = \<lparr>sheenColor = None, sheenRoughness = None\<rparr>"

text \<open>
  The sample metarig of \<open>create_sample\<close>: a chain of three bones, here with the
  \<open>ORG-\<close> prefix the generator gives to original bones, below a root bone.
\<close>

definition sample_bone ::
  "string \<Rightarrow> rat \<times> rat \<times> rat \<Rightarrow> rat \<times> rat \<times> rat \<Rightarrow> string option \<Rightarrow> (rat \<times> rat \<times> rat) bone" where
  "sample_bone name h t p = \<lparr>bone_name = name, head = h, tail = t, roll = 0, parent = p\<rparr>"

definition sample_chain :: "string list" where
  "sample_chain = [''ORG-tongue'', ''ORG-tongue.001'', ''ORG-tongue.002'']"

definition sample_armature :: "(rat \<times> rat \<times> rat) armature" where
  "sample_armature =
     \<lparr>edit_bones =
        [sample_bone ''root'' (0, 0, 0) (0, 1, 0) None,
         sample_bone ''ORG-tongue'' (0, 0, 0) (0, 161/10000, 74/10000) (Some ''root''),
         sample_bone ''ORG-tongue.001'' (0, 161/10000, 74/10000) (0, 375/10000, 91/10000)
           (Some ''ORG-tongue''),
         sample_bone ''ORG-tongue.002'' (0, 375/10000, 91/10000) (0, 605/10000, -29/10000)
           (Some ''ORG-tongue.001'')],
      constraints = []\<rparr>"

definition sample_naming :: naming where
  "sample_naming =
     \<lparr>make_derived_name = (\<lambda>name t. (if t = ''mch'' then ''MCH-'' else ''CTRL-'') @ drop 4 name),
      unique_name = (\<lambda>existing name. name)\<rparr>"

definition sample_rig :: "(rat \<times> rat \<times> rat) rig" where
  "sample_rig =
     \<lparr>obj = sample_armature,
      bones = \<lparr>org = sample_chain, ctrl_master = None, ctrl_tweak = [], mch_follow = []\<rparr>,
      base_bone = ''ORG-tongue'', rig_parent_bone = Some ''root'',
      params = \<lparr>bbones = 10\<rparr>, bbone_segments = None\<rparr>"

text \<open>
  The sample rig after the bones of the control, follow and tweak chains have been
  made (four tweak bones, as the tweak chain template makes one more than the chain
  has bones).
\<close>

definition sample_rig_generated :: "(rat \<times> rat \<times> rat) rig" where
  "sample_rig_generated =
     sample_rig
       \<lparr>obj := sample_armature
          \<lparr>edit_bones := edit_bones sample_armature @
             map (\<lambda>name. sample_bone name (0, 0, 0) (0, 1, 0) None)
               [''tongue_master'', ''MCH-tongue.001'', ''MCH-tongue.002'',
                ''tweak_tongue'', ''tweak_tongue.001'', ''tweak_tongue.002'',
                ''tweak_tongue.003'']\<rparr>,
        bones :=
          \<lparr>org = sample_chain, ctrl_master = Some ''tongue_master'',
           ctrl_tweak = [''tweak_tongue'', ''tweak_tongue.001'', ''tweak_tongue.002'',
                         ''tweak_tongue.003''],
           mch_follow = [''MCH-tongue.001'', ''MCH-tongue.002'']\<rparr>\<rparr>"

text \<open>The parent of a bone of the armature (\<open>None\<close> when there is no such bone).\<close>

definition parent_of :: "'p armature \<Rightarrow> string \<Rightarrow> string option option" where
  "parent_of arm name = map_option parent (get_bone arm name)"

text \<open>
  The influences of the constraints that \<open>rig_follow_chain\<close> adds, in the order of the
  follow bones.
\<close>

definition follow_influences :: "'p rig \<Rightarrow> error + rat list" where
  "follow_influences self =
     (case rig_follow_chain self of
        Inl e \<Rightarrow> Inl e
      | Inr self' \<Rightarrow>
          Inr (map con_influence
                 (drop (length (constraints (obj self))) (constraints (obj self')))))"

text \<open>A layer option that registers one property of its own.\<close>

definition sample_layers :: "(string, int_property) dict \<Rightarrow> (string, int_property) dict" where
  "sample_layers params_group =
     AList.update ''primary_layers_extra''
       \<lparr>prop_name = ''Layers'', prop_default = 0, prop_min = 0, prop_description = ''Layers''\<rparr>
       params_group"

section \<open>The DXF version tables are inverse to each other\<close>

lemma dxfversion_unfold:
  "dxfversion =
     [(''R12'', ''AC1009''), (''R13'', ''AC1012''), (''R14'', ''AC1014''),
      (''R2000'', ''AC1015''), (''R2004'', ''AC1018''), (''R2007'', ''AC1021''),
      (''R2010'', ''AC1024'')]"
  by (simp add: dxfversion_def acadrelease_def)

lemma version_tables_iff:
  "map_of acadrelease a = Some r \<longleftrightarrow> map_of dxfversion r = Some a"
  unfolding dxfversion_unfold acadrelease_def
  by (auto split: if_splits)

text \<open>
  Claim C10. The two tables are exact inverses: every version code \<open>a\<close> that is a key of
  \<open>acadrelease\<close> has a release name \<open>r\<close> with \<open>dxfversion[r] = a\<close>, and every release
  name \<open>r\<close> that is a key of \<open>dxfversion\<close> has a version code \<open>a\<close> with
  \<open>acadrelease[a] = r\<close>.
\<close>

theorem version_tables_inverse:
  "(\<forall>a \<in> fst ` set acadrelease.
      \<exists>r. map_of acadrelease a = Some r \<and> map_of dxfversion r = Some a) \<and>
   (\<forall>r \<in> fst ` set dxfversion.
      \<exists>a. map_of dxfversion r = Some a \<and> map_of acadrelease a = Some r)"
proof (intro conjI ballI)
  fix a assume "a \<in> fst ` set acadrelease"
  then obtain r where "map_of acadrelease a = Some r"
    by (metis domD dom_map_of_conv_image_fst)
  then show "\<exists>r. map_of acadrelease a = Some r \<and> map_of dxfversion r = Some a"
    using version_tables_iff by blast
next
  fix r assume "r \<in> fst ` set dxfversion"
  then obtain a where "map_of dxfversion r = Some a"
    by (metis domD dom_map_of_conv_image_fst)
  then show "\<exists>a. map_of dxfversion r = Some a \<and> map_of acadrelease a = Some r"
    using version_tables_iff by blast
qed

theorem version_tables_inverse_witness:
  "''AC1015'' \<in> fst ` set acadrelease
     \<and> map_of acadrelease ''AC1015'' = Some ''R2000''
     \<and> ''R2000'' \<in> fst ` set dxfversion
     \<and> map_of dxfversion ''R2000'' = Some ''AC1015''"
proof -
  have m: "''AC1015'' \<in> fst ` set acadrelease"
    by (simp add: acadrelease_def)
  have g: "map_of acadrelease ''AC1015'' = Some ''R2000''"
    by (simp add: acadrelease_def)
  from version_tables_inverse m
  obtain r where "map_of acadrelease ''AC1015'' = Some r"
    and "map_of dxfversion r = Some ''AC1015''"
    by blast
  with g have d: "map_of dxfversion ''R2000'' = Some ''AC1015''"
    by simp
  then have "''R2000'' \<in> fst ` set dxfversion"
    by (metis map_of_SomeD fst_conv image_eqI)
  with m g d show ?thesis by simp
qed

section \<open>Properties of the sheen export\<close>

lemma export_sheen_color_other_keys:
  "map_of (fst (export_sheen_color cs st)) ''sheenRoughnessFactor'' =
     map_of (fst st) ''sheenRoughnessFactor''"
  "map_of (fst (export_sheen_color cs st)) ''sheenRoughnessTexture'' =
     map_of (fst st) ''sheenRoughnessTexture''"
  "map_of (snd (export_sheen_color cs st)) ''sheenRoughnessTexture'' =
     map_of (snd st) ''sheenRoughnessTexture''"
  by (simp_all add: export_sheen_color_def Let_def update_conv'
        split: prod.splits option.splits)

lemma export_sheen_roughness_other_keys:
  "map_of (fst (export_sheen_roughness rs st)) ''sheenColorFactor'' =
     map_of (fst st) ''sheenColorFactor''"
  "map_of (fst (export_sheen_roughness rs st)) ''sheenColorTexture'' =
     map_of (fst st) ''sheenColorTexture''"
  "map_of (snd (export_sheen_roughness rs st)) ''sheenColorTexture'' =
     map_of (snd st) ''sheenColorTexture''"
  by (simp_all add: export_sheen_roughness_def Let_def update_conv'
        split: prod.splits option.splits)

lemma export_sheen_both:
  "sheenColor m = Some cs \<Longrightarrow> sheenRoughness m = Some rs \<Longrightarrow>
   export_sheen m =
     (Some \<lparr>ext_name = ''KHR_materials_sheen'',
            ext_data = fst (export_sheen_roughness rs (export_sheen_color cs ([], []))),
            ext_required = False\<rparr>,
      snd (export_sheen_roughness rs (export_sheen_color cs ([], []))))"
  by (simp add: export_sheen_def split: prod.splits)

lemma sheen_recorded_both:
  "sheenColor m = Some cs \<Longrightarrow> sheenRoughness m = Some rs \<Longrightarrow>
   sheen_recorded m key =
     map_of (fst (export_sheen_roughness rs (export_sheen_color cs ([], [])))) key"
  by (simp add: sheen_recorded_def export_sheen_both)

lemma uvmap_recorded_both:
  "sheenColor m = Some cs \<Longrightarrow> sheenRoughness m = Some rs \<Longrightarrow>
   uvmap_recorded m key =
     map_of (snd (export_sheen_roughness rs (export_sheen_color cs ([], [])))) key"
  by (simp add: uvmap_recorded_def export_sheen_both)

lemma color_texture:
  assumes "\<not> (is_node_socket cs \<and> \<not> is_linked cs)" "has_image_node cs"
  shows "map_of (fst (export_sheen_color cs ([], []))) ''sheenColorTexture'' =
           Some (TextureInfo (fst (texture_info cs)))"
    and "map_of (snd (export_sheen_color cs ([], []))) ''sheenColorTexture'' =
           Some (snd (texture_info cs))"
    and "map_of (fst (export_sheen_color cs ([], []))) ''sheenColorFactor'' =
           (let fac = (case factor_from_socket cs of None \<Rightarrow> [1, 1, 1] | Some f \<Rightarrow> f)
            in if fac \<noteq> [0, 0, 0] then Some (RGB fac) else None)"
  using assms
  by (auto simp add: export_sheen_color_def Let_def update_conv'
        split: prod.splits option.splits)

lemma roughness_texture:
  assumes "\<not> (is_node_socket rs \<and> \<not> is_linked rs)" "has_image_node rs"
  shows "map_of (fst (export_sheen_roughness rs st)) ''sheenRoughnessTexture'' =
           Some (TextureInfo (fst (texture_info rs)))"
    and "map_of (snd (export_sheen_roughness rs st)) ''sheenRoughnessTexture'' =
           Some (snd (texture_info rs))"
    and "map_of (fst (export_sheen_roughness rs st)) ''sheenRoughnessFactor'' =
           (let fac = (case factor_from_socket rs of None \<Rightarrow> 1 | Some f \<Rightarrow> f)
            in if fac \<noteq> 0 then Some (Value fac)
               else map_of (fst st) ''sheenRoughnessFactor'')"
  using assms
  by (auto simp add: export_sheen_roughness_def Let_def update_conv'
        split: prod.splits option.splits)

lemma color_unlinked:
  assumes "is_node_socket cs" "\<not> is_linked cs"
  shows "map_of (fst (export_sheen_color cs ([], []))) ''sheenColorFactor'' =
           (let color = take 3 (default_value cs)
            in if color \<noteq> [0, 0, 0] then Some (RGB color) else None)"
  using assms
  by (auto simp add: export_sheen_color_def Let_def update_conv'
        split: prod.splits option.splits)

lemma roughness_unlinked:
  assumes "is_node_socket rs" "\<not> is_linked rs"
  shows "map_of (fst (export_sheen_roughness rs st)) ''sheenRoughnessFactor'' =
           (if default_value rs \<noteq> 0 then Some (Value (default_value rs))
            else map_of (fst st) ''sheenRoughnessFactor'')"
  using assms
  by (auto simp add: export_sheen_roughness_def Let_def update_conv'
        split: prod.splits option.splits)

lemma textured_material_export:
  "export_sheen textured_material =
     (Some \<lparr>ext_name = ''KHR_materials_sheen'',
            ext_data =
              [(''sheenColorFactor'', RGB [1, 1, 1]),
               (''sheenColorTexture'', TextureInfo ''color.png''),
               (''sheenRoughnessFactor'', Value 1),
               (''sheenRoughnessTexture'', TextureInfo ''rough.png'')],
            ext_required = False\<rparr>,
      [(''sheenColorTexture'', ''UVMap''), (''sheenRoughnessTexture'', ''UVMap'')])"
  by (simp add: export_sheen_def textured_material_def image_socket_def
        export_sheen_color_def export_sheen_roughness_def)

lemma plain_material_export:
  "export_sheen plain_material =
     (Some \<lparr>ext_name = ''KHR_materials_sheen'',
            ext_data =
              [(''sheenColorFactor'', RGB [1/2, 1/4, 0]),
               (''sheenRoughnessFactor'', Value (3/10))],
            ext_required = False\<rparr>,
      [])"
  by (simp add: export_sheen_def plain_material_def plain_socket_def
        export_sheen_color_def export_sheen_roughness_def)

text \<open>
  Claim C6. When the material has neither the sheen colour socket nor the sheen
  roughness socket, \<open>export_sheen\<close> returns no extension and an empty auxiliary
  mapping: the pair \<open>(None, {})\<close>.
\<close>

theorem export_sheen_no_sockets:
  "sheenColor m = None \<Longrightarrow> sheenRoughness m = None \<Longrightarrow> export_sheen m = (None, [])"
  by (simp add: export_sheen_def)

theorem export_sheen_no_sockets_witness:
  "sheenColor no_sheen_material = None \<and> sheenRoughness no_sheen_material = None
     \<and> export_sheen no_sheen_material = (None, [])"
proof -
  have c: "sheenColor no_sheen_material = None"
    and r: "sheenRoughness no_sheen_material = None"
    by (simp_all add: no_sheen_material_def)
  from export_sheen_no_sockets [OF c r] c r show ?thesis by simp
qed

text \<open>
  Claim C9. One missing socket is enough: when the sheen colour socket or the sheen
  roughness socket is missing, \<open>export_sheen\<close> returns \<open>(None, {})\<close>; an extension
  record is returned exactly when both sockets exist.
\<close>

theorem export_sheen_one_socket_missing:
  "(sheenColor m = None \<or> sheenRoughness m = None \<longrightarrow> export_sheen m = (None, [])) \<and>
   (fst (export_sheen m) \<noteq> None \<longleftrightarrow> sheenColor m \<noteq> None \<and> sheenRoughness m \<noteq> None)"
  by (auto simp: export_sheen_def split: option.splits prod.splits)

theorem export_sheen_one_socket_missing_witness:
  "sheenColor roughness_only_material = None
     \<and> sheenRoughness roughness_only_material \<noteq> None
     \<and> export_sheen roughness_only_material = (None, [])
     \<and> sheenColor plain_material \<noteq> None \<and> sheenRoughness plain_material \<noteq> None
     \<and> fst (export_sheen plain_material) \<noteq> None"
proof -
  have c: "sheenColor roughness_only_material = None"
    and r: "sheenRoughness roughness_only_material \<noteq> None"
    by (simp_all add: roughness_only_material_def)
  have p: "sheenColor plain_material \<noteq> None \<and> sheenRoughness plain_material \<noteq> None"
    by (simp add: plain_material_def)
  from export_sheen_one_socket_missing [of roughness_only_material] c
  have 1: "export_sheen roughness_only_material = (None, [])" by simp
  from export_sheen_one_socket_missing [of plain_material] p
  have 2: "fst (export_sheen plain_material) \<noteq> None" by simp
  from c r p 1 2 show ?thesis by simp
qed

text \<open>
  Claim C5 as stated fails, in two ways. A texture does not replace the factor: for a
  material whose colour socket is linked to an image and has no factor node, the
  extension record holds the texture and, beside it, the factor \<open>[1.0, 1.0, 1.0]\<close>
  that lines 32 and 33 put in. And for a material whose colour socket is linked to
  an image but whose roughness socket is missing, the guard of line 17 returns
  \<open>(None, {})\<close>: no texture is recorded.
\<close>

theorem export_sheen_texture_replaces_factor_counterexample:
  "sheenColor textured_material = Some (image_socket [0, 0, 0, 1] ''color.png'')
     \<and> sheenColor textured_color_only_material = Some (image_socket [0, 0, 0, 1] ''color.png'')
     \<and> is_linked (image_socket [0, 0, 0, 1 :: rat] ''color.png'')
     \<and> has_image_node (image_socket [0, 0, 0, 1 :: rat] ''color.png'')
     \<and> sheen_recorded textured_material ''sheenColorTexture'' = Some (TextureInfo ''color.png'')
     \<and> sheen_recorded textured_material ''sheenColorFactor'' = Some (RGB [1, 1, 1])
     \<and> export_sheen textured_color_only_material = (None, [])
     \<and> sheen_recorded textured_color_only_material ''sheenColorTexture'' = None"
  by (simp add: sheen_recorded_def textured_material_export)
    (simp add: textured_material_def textured_color_only_material_def image_socket_def
       export_sheen_def)

text \<open>
  Claim C5, amended. For every material in which both sheen sockets exist: when the
  colour (resp. roughness) socket is linked and has an image node, \<open>export_sheen\<close>
  records the texture under \<open>sheenColorTexture\<close> (resp. \<open>sheenRoughnessTexture\<close>) in
  the extension record and its UV-map information under the same key in the auxiliary
  mapping; a factor is recorded beside the texture, namely the factor found for the
  socket, or 1.0 for each component when none is found, unless that factor is zero.
\<close>

theorem export_sheen_texture:
  assumes "sheenColor m = Some cs" and "sheenRoughness m = Some rs"
  shows "(is_linked cs \<and> has_image_node cs \<longrightarrow>
            sheen_recorded m ''sheenColorTexture'' = Some (TextureInfo (fst (texture_info cs))) \<and>
            uvmap_recorded m ''sheenColorTexture'' = Some (snd (texture_info cs)) \<and>
            sheen_recorded m ''sheenColorFactor'' =
              (let fac = (case factor_from_socket cs of None \<Rightarrow> [1, 1, 1] | Some f \<Rightarrow> f)
               in if fac \<noteq> [0, 0, 0] then Some (RGB fac) else None)) \<and>
         (is_linked rs \<and> has_image_node rs \<longrightarrow>
            sheen_recorded m ''sheenRoughnessTexture'' = Some (TextureInfo (fst (texture_info rs))) \<and>
            uvmap_recorded m ''sheenRoughnessTexture'' = Some (snd (texture_info rs)) \<and>
            sheen_recorded m ''sheenRoughnessFactor'' =
              (let fac = (case factor_from_socket rs of None \<Rightarrow> 1 | Some f \<Rightarrow> f)
               in if fac \<noteq> 0 then Some (Value fac) else None))"
proof (intro conjI impI)
  assume c: "is_linked cs \<and> has_image_node cs"
  then have n: "\<not> (is_node_socket cs \<and> \<not> is_linked cs)" and i: "has_image_node cs"
    by simp_all
  show "sheen_recorded m ''sheenColorTexture'' = Some (TextureInfo (fst (texture_info cs)))"
    by (simp add: sheen_recorded_both [OF assms] export_sheen_roughness_other_keys
          color_texture(1) [OF n i])
  show "uvmap_recorded m ''sheenColorTexture'' = Some (snd (texture_info cs))"
    by (simp add: uvmap_recorded_both [OF assms] export_sheen_roughness_other_keys
          color_texture(2) [OF n i])
  show "sheen_recorded m ''sheenColorFactor'' =
          (let fac = (case factor_from_socket cs of None \<Rightarrow> [1, 1, 1] | Some f \<Rightarrow> f)
           in if fac \<noteq> [0, 0, 0] then Some (RGB fac) else None)"
    by (simp only: sheen_recorded_both [OF assms] export_sheen_roughness_other_keys
          color_texture(3) [OF n i])
next
  assume r: "is_linked rs \<and> has_image_node rs"
  then have n: "\<not> (is_node_socket rs \<and> \<not> is_linked rs)" and i: "has_image_node rs"
    by simp_all
  show "sheen_recorded m ''sheenRoughnessTexture'' = Some (TextureInfo (fst (texture_info rs)))"
    by (simp add: sheen_recorded_both [OF assms] roughness_texture(1) [OF n i])
  show "uvmap_recorded m ''sheenRoughnessTexture'' = Some (snd (texture_info rs))"
    by (simp add: uvmap_recorded_both [OF assms] roughness_texture(2) [OF n i])
  show "sheen_recorded m ''sheenRoughnessFactor'' =
          (let fac = (case factor_from_socket rs of None \<Rightarrow> 1 | Some f \<Rightarrow> f)
           in if fac \<noteq> 0 then Some (Value fac) else None)"
    by (simp add: sheen_recorded_both [OF assms] roughness_texture(3) [OF n i]
          export_sheen_color_other_keys Let_def)
qed

theorem export_sheen_texture_witness:
  "sheenColor textured_material = Some (image_socket [0, 0, 0, 1] ''color.png'')
     \<and> sheenRoughness textured_material = Some (image_socket 0 ''rough.png'')
     \<and> is_linked (image_socket [0, 0, 0, 1 :: rat] ''color.png'')
     \<and> has_image_node (image_socket [0, 0, 0, 1 :: rat] ''color.png'')
     \<and> is_linked (image_socket (0 :: rat) ''rough.png'')
     \<and> has_image_node (image_socket (0 :: rat) ''rough.png'')
     \<and> sheen_recorded textured_material ''sheenColorTexture'' = Some (TextureInfo ''color.png'')
     \<and> uvmap_recorded textured_material ''sheenColorTexture'' = Some ''UVMap''
     \<and> sheen_recorded textured_material ''sheenColorFactor'' = Some (RGB [1, 1, 1])
     \<and> sheen_recorded textured_material ''sheenRoughnessTexture'' = Some (TextureInfo ''rough.png'')
     \<and> uvmap_recorded textured_material ''sheenRoughnessTexture'' = Some ''UVMap''
     \<and> sheen_recorded textured_material ''sheenRoughnessFactor'' = Some (Value 1)"
proof -
  have c: "sheenColor textured_material = Some (image_socket [0, 0, 0, 1] ''color.png'')"
    and r: "sheenRoughness textured_material = Some (image_socket 0 ''rough.png'')"
    by (simp_all add: textured_material_def)
  have l: "is_linked (image_socket [0, 0, 0, 1 :: rat] ''color.png'')
             \<and> has_image_node (image_socket [0, 0, 0, 1 :: rat] ''color.png'')"
    "is_linked (image_socket (0 :: rat) ''rough.png'')
             \<and> has_image_node (image_socket (0 :: rat) ''rough.png'')"
    by (simp_all add: image_socket_def)
  from export_sheen_texture [OF c r] l c r show ?thesis
    by (simp add: image_socket_def)
qed

text \<open>
  Claim C7 as stated fails: the colour socket of the material below exists, is unlinked
  and holds a colour other than black, but the roughness socket is missing, so the
  guard of line 17 returns \<open>(None, {})\<close> and no factor is recorded.
\<close>

theorem export_sheen_unlinked_other_missing_counterexample:
  "sheenColor color_only_material = Some (plain_socket [1/2, 1/4, 0, 1])
     \<and> is_node_socket (plain_socket [1/2, 1/4, 0, 1 :: rat])
     \<and> \<not> is_linked (plain_socket [1/2, 1/4, 0, 1 :: rat])
     \<and> take 3 (default_value (plain_socket [1/2, 1/4, 0, 1 :: rat])) \<noteq> [0, 0, 0]
     \<and> export_sheen color_only_material = (None, [])
     \<and> sheen_recorded color_only_material ''sheenColorFactor'' = None"
  by (simp add: sheen_recorded_def export_sheen_def color_only_material_def plain_socket_def)

text \<open>
  Claim C7, amended. For every material in which both sheen sockets exist: when the
  colour socket is an unlinked node socket, the extension record holds the first
  three components of its value under \<open>sheenColorFactor\<close> if they differ from black
  \<open>(0, 0, 0)\<close>, and has no \<open>sheenColorFactor\<close> otherwise; when the roughness socket
  is an unlinked node socket, the record holds its value under
  \<open>sheenRoughnessFactor\<close> if it differs from 0.0, and has no \<open>sheenRoughnessFactor\<close>
  otherwise.
\<close>

theorem export_sheen_unlinked_factor:
  assumes "sheenColor m = Some cs" and "sheenRoughness m = Some rs"
  shows "(is_node_socket cs \<and> \<not> is_linked cs \<longrightarrow>
            sheen_recorded m ''sheenColorFactor'' =
              (if take 3 (default_value cs) \<noteq> [0, 0, 0]
               then Some (RGB (take 3 (default_value cs))) else None)) \<and>
         (is_node_socket rs \<and> \<not> is_linked rs \<longrightarrow>
            sheen_recorded m ''sheenRoughnessFactor'' =
              (if default_value rs \<noteq> 0 then Some (Value (default_value rs)) else None))"
proof (intro conjI impI)
  assume "is_node_socket cs \<and> \<not> is_linked cs"
  then have n: "is_node_socket cs" and l: "\<not> is_linked cs" by simp_all
  show "sheen_recorded m ''sheenColorFactor'' =
          (if take 3 (default_value cs) \<noteq> [0, 0, 0]
           then Some (RGB (take 3 (default_value cs))) else None)"
    using color_unlinked [OF n l]
    by (simp add: sheen_recorded_both [OF assms] export_sheen_roughness_other_keys Let_def)
next
  assume "is_node_socket rs \<and> \<not> is_linked rs"
  then have n: "is_node_socket rs" and l: "\<not> is_linked rs" by simp_all
  show "sheen_recorded m ''sheenRoughnessFactor'' =
          (if default_value rs \<noteq> 0 then Some (Value (default_value rs)) else None)"
    by (simp add: sheen_recorded_both [OF assms] roughness_unlinked [OF n l]
          export_sheen_color_other_keys)
qed

theorem export_sheen_unlinked_factor_witness:
  "sheenColor plain_material = Some (plain_socket [1/2, 1/4, 0, 1])
     \<and> sheenRoughness plain_material = Some (plain_socket (3/10))
     \<and> is_node_socket (plain_socket [1/2, 1/4, 0, 1 :: rat])
     \<and> \<not> is_linked (plain_socket [1/2, 1/4, 0, 1 :: rat])
     \<and> is_node_socket (plain_socket (3/10 :: rat))
     \<and> \<not> is_linked (plain_socket (3/10 :: rat))
     \<and> sheen_recorded plain_material ''sheenColorFactor'' = Some (RGB [1/2, 1/4, 0])
     \<and> sheen_recorded plain_material ''sheenRoughnessFactor'' = Some (Value (3/10))"
proof -
  have c: "sheenColor plain_material = Some (plain_socket [1/2, 1/4, 0, 1])"
    and r: "sheenRoughness plain_material = Some (plain_socket (3/10))"
    by (simp_all add: plain_material_def)
  have l: "is_node_socket (plain_socket [1/2, 1/4, 0, 1 :: rat])
             \<and> \<not> is_linked (plain_socket [1/2, 1/4, 0, 1 :: rat])"
    "is_node_socket (plain_socket (3/10 :: rat)) \<and> \<not> is_linked (plain_socket (3/10 :: rat))"
    by (simp_all add: plain_socket_def)
  from export_sheen_unlinked_factor [OF c r] l c r show ?thesis
    by (simp add: plain_socket_def)
qed

section \<open>Properties of the tongue rig\<close>

subsection \<open>Rounding to a double\<close>

lemma round_half_even_error: "\<bar>of_int (round_half_even q) - q\<bar> \<le> 1/2"
proof -
  define r where "r = q - of_int \<lfloor>q\<rfloor>"
  have r: "0 \<le> r" "r < 1" unfolding r_def by linarith+
  have q: "q = of_int \<lfloor>q\<rfloor> + r" by (simp add: r_def)
  consider "r < 1/2" | "1/2 < r" | "r = 1/2" by linarith
  then show ?thesis
  proof cases
    case 1
    then have "round_half_even q = \<lfloor>q\<rfloor>"
      by (simp add: round_half_even_def Let_def r_def)
    then have "of_int (round_half_even q) - q = - r" by (simp add: r_def)
    with r 1 show ?thesis by simp
  next
    case 2
    then have "round_half_even q = \<lfloor>q\<rfloor> + 1"
      by (simp add: round_half_even_def Let_def r_def)
    then have "of_int (round_half_even q) - q = 1 - r" by (simp add: r_def)
    with r 2 show ?thesis by simp
  next
    case 3
    then have "round_half_even q = \<lfloor>q\<rfloor> \<or> round_half_even q = \<lfloor>q\<rfloor> + 1"
      by (simp add: round_half_even_def Let_def r_def)
    then have "of_int (round_half_even q) - q = - r \<or> of_int (round_half_even q) - q = 1 - r"
      by (auto simp: r_def)
    with 3 show ?thesis by auto
  qed
qed

lemma pow2_of_nat: "0 \<le> e \<Longrightarrow> (2::rat) powi e = 2 ^ nat e"
  by (simp add: power_int_def)

lemma pow2_of_neg: "0 \<le> k \<Longrightarrow> (2::rat) powi (- k) = 1 / 2 ^ nat k"
  by (simp add: power_int_minus pow2_of_nat inverse_eq_divide)

lemma float_exponent_bounds:
  assumes "0 < x"
  shows "2 powi float_exponent x \<le> x" and "x < 2 powi (float_exponent x + 1)"
proof -
  have "2 powi float_exponent x \<le> x \<and> x < 2 powi (float_exponent x + 1)"
  proof (cases "1 \<le> x")
    case True
    let ?n = "\<lfloor>x\<rfloor>"
    have n: "0 < ?n" using True by simp
    from bitlen_bounds [OF n] have lo: "2 ^ nat (bitlen ?n - 1) \<le> ?n" and hi: "?n < 2 ^ nat (bitlen ?n)"
      by simp_all
    have b1: "1 \<le> bitlen ?n" using n by (simp add: bitlen_alt_def)
    have "(2::rat) powi (bitlen ?n - 1) = of_int (2 ^ nat (bitlen ?n - 1))"
      using b1 by (simp add: pow2_of_nat)
    also have "\<dots> \<le> of_int ?n" using lo by (simp only: of_int_le_iff)
    also have "\<dots> \<le> x" by simp
    finally have 1: "(2::rat) powi (bitlen ?n - 1) \<le> x" .
    have "?n + 1 \<le> 2 ^ nat (bitlen ?n)" using hi by simp
    then have "(of_int (?n + 1) :: rat) \<le> of_int (2 ^ nat (bitlen ?n))" by (simp only: of_int_le_iff)
    moreover have "x < of_int (?n + 1)" by simp linarith
    ultimately have "x < of_int (2 ^ nat (bitlen ?n))" by linarith
    also have "\<dots> = 2 powi (bitlen ?n - 1 + 1)" using b1 by (simp add: pow2_of_nat)
    finally have 2: "x < 2 powi (bitlen ?n - 1 + 1)" .
    from 1 2 True show ?thesis by (simp add: float_exponent_def)
  next
    case False
    then have x1: "x < 1" by simp
    let ?y = "1 / x"
    let ?m = "\<lceil>?y\<rceil>"
    have y1: "1 < ?y" using assms x1 by simp
    then have m2: "2 \<le> ?m" by linarith
    then have n: "0 < ?m - 1" by simp
    let ?k = "bitlen (?m - 1)"
    from bitlen_bounds [OF n] have lo: "2 ^ nat (?k - 1) \<le> ?m - 1" and hi: "?m - 1 < 2 ^ nat ?k"
      by simp_all
    have k1: "1 \<le> ?k" using n by (simp add: bitlen_alt_def)
    have "(of_int (2 ^ nat (?k - 1)) :: rat) \<le> of_int (?m - 1)" using lo by (simp only: of_int_le_iff)
    moreover have "of_int (?m - 1) < ?y" by simp linarith
    ultimately have ylo: "(2::rat) ^ nat (?k - 1) < ?y" by simp
    have "?m \<le> 2 ^ nat ?k" using hi by simp
    then have "(of_int ?m :: rat) \<le> of_int (2 ^ nat ?k)" by (simp only: of_int_le_iff)
    moreover have "?y \<le> of_int ?m" by (rule le_of_int_ceiling)
    moreover have "(of_int (2 ^ nat ?k) :: rat) = 2 ^ nat ?k" by simp
    ultimately have yhi: "?y \<le> (2::rat) ^ nat ?k" by linarith
    have p: "(0::rat) < 2 ^ nat ?k" "(0::rat) < 2 ^ nat (?k - 1)" by simp_all
    have "1 / (2::rat) ^ nat ?k \<le> x"
      using yhi assms p by (simp add: field_simps)
    moreover have "(2::rat) powi (- ?k) = 1 / 2 ^ nat ?k"
      using k1 by (intro pow2_of_neg) simp
    ultimately have 1: "(2::rat) powi (- ?k) \<le> x" by simp
    have "x < 1 / (2::rat) ^ nat (?k - 1)"
      using ylo assms p by (simp add: field_simps)
    moreover have "(2::rat) powi (- ?k + 1) = 1 / 2 ^ nat (?k - 1)"
    proof -
      have eq: "- ?k + 1 = - (?k - 1)" by simp
      have "0 \<le> ?k - 1" using k1 by simp
      then show ?thesis unfolding eq by (rule pow2_of_neg)
    qed
    ultimately have 2: "x < (2::rat) powi (- ?k + 1)" by simp
    from 1 2 False show ?thesis by (simp add: float_exponent_def)
  qed
  then show "2 powi float_exponent x \<le> x" and "x < 2 powi (float_exponent x + 1)"
    by simp_all
qed

lemma float_exponent_unique:
  assumes "0 < x" "2 powi e \<le> x" "x < 2 powi (e + 1)"
  shows "float_exponent x = e"
proof (rule antisym)
  have "(2::rat) powi float_exponent x < 2 powi (e + 1)"
    using float_exponent_bounds(1) [OF assms(1)] assms(3) by linarith
  then have "float_exponent x < e + 1"
    by (smt (verit) power_int_increasing one_le_numeral not_less)
  then show "float_exponent x \<le> e" by simp
  have "(2::rat) powi e < 2 powi (float_exponent x + 1)"
    using float_exponent_bounds(2) [OF assms(1)] assms(2) by linarith
  then have "e < float_exponent x + 1"
    by (smt (verit) power_int_increasing one_le_numeral not_less)
  then show "e \<le> float_exponent x" by simp
qed

lemma round_double_eval:
  assumes "0 < x" "2 powi e \<le> x" "x < 2 powi (e + 1)" "- 1022 \<le> e"
  shows "round_double x = of_int (round_half_even (x / 2 powi (e - 52))) * 2 powi (e - 52)"
  using assms float_exponent_unique [OF assms(1-3)]
  by (simp add: round_double_def Let_def max_def)

lemma round_double_error:
  assumes "0 < x" "x < 1"
  shows "\<bar>round_double x - x\<bar> \<le> 1 / 2 ^ 54"
proof -
  let ?E = "max (float_exponent x) (- 1022) - 52"
  let ?u = "(2::rat) powi ?E"
  have u: "0 < ?u" by simp
  have "(2::rat) powi float_exponent x < 2 powi 0"
    using float_exponent_bounds(1) [OF assms(1)] assms(2) by simp
  then have "float_exponent x < 0"
    by (smt (verit) power_int_increasing one_le_numeral not_less)
  then have "?E \<le> - 53" by simp
  then have "?u \<le> 2 powi (- 53)"
    by (intro power_int_increasing) simp_all
  then have ub: "?u \<le> 1 / 2 ^ 53" by (simp add: power_int_def field_simps)
  have rd: "round_double x = of_int (round_half_even (x / ?u)) * ?u"
    using assms(1) by (simp add: round_double_def Let_def)
  have "\<bar>round_double x - x\<bar> = \<bar>of_int (round_half_even (x / ?u)) - x / ?u\<bar> * ?u"
  proof -
    have "round_double x - x = (of_int (round_half_even (x / ?u)) - x / ?u) * ?u"
      using u by (simp add: rd field_simps)
    then show ?thesis using u by (simp add: abs_mult)
  qed
  also have "\<dots> \<le> (1/2) * ?u"
    using round_half_even_error [of "x / ?u"] u by (intro mult_right_mono) simp_all
  also have "\<dots> \<le> (1/2) * (1 / 2 ^ 53)" using ub by simp
  also have "\<dots> = 1 / 2 ^ 54" by simp
  finally show ?thesis .
qed


lemma round_half_even_nearest:
  assumes "\<bar>q - of_int n\<bar> < 1/2"
  shows "round_half_even q = n"
proof (cases "of_int n \<le> q")
  case True
  with assms have "q < of_int n + 1" by linarith
  with True have f: "\<lfloor>q\<rfloor> = n" by (intro floor_unique) simp_all
  have "q - of_int n < 1/2" using assms True by linarith
  then show ?thesis by (simp add: round_half_even_def Let_def f)
next
  case False
  then have lt: "q < of_int n" by simp
  have m: "(of_int (n - 1) :: rat) = of_int n - 1" by simp
  have "of_int (n - 1) \<le> q" using assms lt unfolding m by linarith
  moreover have "q < of_int (n - 1) + 1" using lt unfolding m by linarith
  ultimately have f: "\<lfloor>q\<rfloor> = n - 1" by (intro floor_unique)
  have "1/2 < q - of_int (n - 1)" using assms lt unfolding m by linarith
  then show ?thesis by (simp add: round_half_even_def Let_def f)
qed

lemma round_half_even_tie:
  assumes "q = of_int n + 1/2"
  shows "round_half_even q = (if even n then n else n + 1)"
proof -
  have f: "\<lfloor>q\<rfloor> = n" by (intro floor_unique) (simp_all add: assms)
  have "q - of_int n = 1/2" by (simp add: assms)
  then show ?thesis by (simp add: round_half_even_def Let_def f)
qed

lemma rd_third: "round_double (1/3) = 6004799503160661 / 2 ^ 54"
proof -
  have "round_double (1/3) =
          of_int (round_half_even ((1/3) / 2 powi (- 2 - 52))) * 2 powi (- 2 - 52)"
    by (rule round_double_eval) (simp_all add: power_int_minus)
  also have "round_half_even ((1/3) / 2 powi (- 2 - 52)) = 6004799503160661"
    by (rule round_half_even_nearest) (simp add: power_int_minus)
  also have "of_int 6004799503160661 * 2 powi (- 2 - 52) = (6004799503160661 / 2 ^ 54 :: rat)"
    by (simp add: power_int_minus)
  finally show ?thesis .
qed

lemma rd_two_thirds: "round_double (2/3) = 6004799503160661 / 2 ^ 53"
proof -
  have "round_double (2/3) =
          of_int (round_half_even ((2/3) / 2 powi (- 1 - 52))) * 2 powi (- 1 - 52)"
    by (rule round_double_eval) (simp_all add: power_int_minus)
  also have "round_half_even ((2/3) / 2 powi (- 1 - 52)) = 6004799503160661"
    by (rule round_half_even_nearest) (simp add: power_int_minus)
  also have "of_int 6004799503160661 * 2 powi (- 1 - 52) = (6004799503160661 / 2 ^ 53 :: rat)"
    by (simp add: power_int_minus)
  finally show ?thesis .
qed

lemma rd_one_minus_third:
  "round_double (1 - 6004799503160661 / 2 ^ 54) = 6004799503160662 / 2 ^ 53"
proof -
  have "round_double (1 - 6004799503160661 / 2 ^ 54) =
          of_int (round_half_even ((1 - 6004799503160661 / 2 ^ 54) / 2 powi (- 1 - 52)))
            * 2 powi (- 1 - 52)"
    by (rule round_double_eval) (simp_all add: power_int_minus)
  also have "round_half_even ((1 - 6004799503160661 / 2 ^ 54) / 2 powi (- 1 - 52))
               = (if even (6004799503160661 :: int) then 6004799503160661 else 6004799503160661 + 1)"
    by (rule round_half_even_tie) (simp add: power_int_minus)
  also have "of_int (if even (6004799503160661 :: int) then 6004799503160661 else 6004799503160661 + 1)
               * 2 powi (- 1 - 52) = (6004799503160662 / 2 ^ 53 :: rat)"
    by (simp add: power_int_minus)
  finally show ?thesis .
qed

lemma rd_one_minus_two_thirds:
  "round_double (1 - 6004799503160661 / 2 ^ 53) = 3002399751580331 / 2 ^ 53"
proof -
  have "round_double (1 - 6004799503160661 / 2 ^ 53) =
          of_int (round_half_even ((1 - 6004799503160661 / 2 ^ 53) / 2 powi (- 2 - 52)))
            * 2 powi (- 2 - 52)"
    by (rule round_double_eval) (simp_all add: power_int_minus)
  also have "round_half_even ((1 - 6004799503160661 / 2 ^ 53) / 2 powi (- 2 - 52))
               = 6004799503160662"
    by (rule round_half_even_nearest) (simp add: power_int_minus)
  also have "of_int 6004799503160662 * 2 powi (- 2 - 52) = (3002399751580331 / 2 ^ 53 :: rat)"
    by (simp add: power_int_minus)
  finally show ?thesis .
qed

lemma rd_tiny: "round_double (1 / 2 ^ 54) = 1 / 2 ^ 54"
proof -
  have "round_double (1 / 2 ^ 54) =
          of_int (round_half_even ((1 / 2 ^ 54) / 2 powi (- 54 - 52))) * 2 powi (- 54 - 52)"
    by (rule round_double_eval) (simp_all add: power_int_minus)
  also have "round_half_even ((1 / 2 ^ 54) / 2 powi (- 54 - 52)) = 4503599627370496"
    by (rule round_half_even_nearest) (simp add: power_int_minus)
  also have "of_int 4503599627370496 * 2 powi (- 54 - 52) = (1 / 2 ^ 54 :: rat)"
    by (simp add: power_int_minus)
  finally show ?thesis .
qed

lemma rd_one_minus_tiny: "round_double (1 - 1 / 2 ^ 54) = 1"
proof -
  have "round_double (1 - 1 / 2 ^ 54) =
          of_int (round_half_even ((1 - 1 / 2 ^ 54) / 2 powi (- 1 - 52))) * 2 powi (- 1 - 52)"
    by (rule round_double_eval) (simp_all add: power_int_minus)
  also have "round_half_even ((1 - 1 / 2 ^ 54) / 2 powi (- 1 - 52))
               = (if even (9007199254740991 :: int) then 9007199254740991 else 9007199254740991 + 1)"
    by (rule round_half_even_tie) (simp add: power_int_minus)
  also have "of_int (if even (9007199254740991 :: int) then 9007199254740991 else 9007199254740991 + 1)
               * 2 powi (- 1 - 52) = (1 :: rat)"
    by (simp add: power_int_minus)
  finally show ?thesis .
qed

subsection \<open>The chains\<close>

lemma get_bone_None_iff: "get_bone arm name = None \<longleftrightarrow> name \<notin> set (bone_names arm)"
  by (auto simp: get_bone_def bone_names_def find_None_iff)

lemma get_bone_Some_ex: "name \<in> set (bone_names arm) \<Longrightarrow> \<exists>b. get_bone arm name = Some b"
  using get_bone_None_iff [of arm name] by (cases "get_bone arm name") auto

lemma bone_names_update_bone:
  "(\<And>b. bone_name (f b) = bone_name b) \<Longrightarrow> bone_names (update_bone name f arm) = bone_names arm"
  by (simp add: bone_names_def update_bone_def comp_def cong: map_cong)

lemma constraints_update_bone: "constraints (update_bone name f arm) = constraints arm"
  by (simp add: update_bone_def)

lemma find_update:
  assumes "\<And>b. bone_name (f b) = bone_name b"
  shows "find (\<lambda>b. bone_name b = m) (map (\<lambda>b. if bone_name b = n then f b else b) bs) =
           (if m = n then map_option f (find (\<lambda>b. bone_name b = n) bs)
            else find (\<lambda>b. bone_name b = m) bs)"
  using assms by (induction bs) auto

lemma get_bone_update_bone:
  "(\<And>b. bone_name (f b) = bone_name b) \<Longrightarrow>
   get_bone (update_bone n f arm) m =
     (if m = n then map_option f (get_bone arm n) else get_bone arm m)"
  by (simp add: get_bone_def update_bone_def find_update)

lemma copy_bone_ok:
  assumes "name \<in> set (bone_names arm)"
  shows "\<exists>arm'. copy_bone nm arm name assign_name wp =
                  Inr (unique_name nm (bone_names arm) assign_name, arm')
               \<and> bone_names arm' = bone_names arm @ [unique_name nm (bone_names arm) assign_name]
               \<and> constraints arm' = constraints arm"
  using get_bone_Some_ex [OF assms]
  by (auto simp: copy_bone_def Let_def bone_names_def)

lemma flip_bone_ok:
  assumes "name \<in> set (bone_names arm)"
  shows "\<exists>arm'. flip_bone arm name = Inr arm' \<and> bone_names arm' = bone_names arm
               \<and> constraints arm' = constraints arm"
  using get_bone_Some_ex [OF assms]
  by (auto simp: flip_bone_def bone_names_update_bone constraints_update_bone)

lemma copy_bone_position_ok:
  assumes "name \<in> set (bone_names arm)" "target \<in> set (bone_names arm)"
  shows "\<exists>arm'. copy_bone_position arm name target = Inr arm' \<and> bone_names arm' = bone_names arm
               \<and> constraints arm' = constraints arm"
  using get_bone_Some_ex [OF assms(1)] get_bone_Some_ex [OF assms(2)]
  by (auto simp: copy_bone_position_def bone_names_update_bone constraints_update_bone)

lemma make_mch_follow_bone_ok:
  assumes "org_bone \<in> set (bone_names arm)" "base \<in> set (bone_names arm)"
  shows "\<exists>arm'. make_mch_follow_bone nm base i org_bone arm =
                  Inr (unique_name nm (bone_names arm) (make_derived_name nm org_bone ''mch''), arm')
               \<and> bone_names arm' =
                   bone_names arm @ [unique_name nm (bone_names arm) (make_derived_name nm org_bone ''mch'')]
               \<and> constraints arm' = constraints arm"
proof -
  let ?n = "unique_name nm (bone_names arm) (make_derived_name nm org_bone ''mch'')"
  from copy_bone_ok [OF assms(1)] obtain arm1 where
    1: "copy_bone nm arm org_bone (make_derived_name nm org_bone ''mch'') False = Inr (?n, arm1)"
    and n1: "bone_names arm1 = bone_names arm @ [?n]" and c1: "constraints arm1 = constraints arm"
    by blast
  have "base \<in> set (bone_names arm1)" "?n \<in> set (bone_names arm1)"
    using assms(2) n1 by simp_all
  from copy_bone_position_ok [OF this] obtain arm2 where
    2: "copy_bone_position arm1 base ?n = Inr arm2"
    and n2: "bone_names arm2 = bone_names arm1" and c2: "constraints arm2 = constraints arm1"
    by blast
  have "?n \<in> set (bone_names arm2)" using n1 n2 by simp
  from flip_bone_ok [OF this] obtain arm3 where
    3: "flip_bone arm2 ?n = Inr arm3"
    and n3: "bone_names arm3 = bone_names arm2" and c3: "constraints arm3 = constraints arm2"
    by blast
  show ?thesis
    using 1 2 3 n1 n2 n3 c1 c2 c3 by (simp add: make_mch_follow_bone_def)
qed

lemma map_list_follow:
  assumes "snd ` set xs \<subseteq> set (bone_names arm)" "base \<in> set (bone_names arm)"
  shows "\<exists>names arm'.
           map_list (\<lambda>(i, org_bone). make_mch_follow_bone nm base i org_bone) xs arm = Inr (names, arm')
         \<and> length names = length xs
         \<and> bone_names arm' = bone_names arm @ names
         \<and> constraints arm' = constraints arm
         \<and> (\<forall>i < length xs. names ! i =
              unique_name nm (bone_names arm @ take i names)
                (make_derived_name nm (snd (xs ! i)) ''mch''))"
  using assms
proof (induction xs arbitrary: arm)
  case Nil
  then show ?case by simp
next
  case (Cons x xs)
  obtain i o' where x: "x = (i, o')" by (cases x)
  let ?n = "unique_name nm (bone_names arm) (make_derived_name nm o' ''mch'')"
  have "o' \<in> set (bone_names arm)" using Cons.prems(1) x by simp
  from make_mch_follow_bone_ok [OF this Cons.prems(2)] obtain arm1 where
    1: "make_mch_follow_bone nm base i o' arm = Inr (?n, arm1)"
    and n1: "bone_names arm1 = bone_names arm @ [?n]"
    and c1: "constraints arm1 = constraints arm"
    by blast
  have "snd ` set xs \<subseteq> set (bone_names arm1)" "base \<in> set (bone_names arm1)"
    using Cons.prems n1 by auto
  from Cons.IH [OF this] obtain names arm' where
    2: "map_list (\<lambda>(i, org_bone). make_mch_follow_bone nm base i org_bone) xs arm1 = Inr (names, arm')"
    and l: "length names = length xs"
    and n2: "bone_names arm' = bone_names arm1 @ names"
    and c2: "constraints arm' = constraints arm1"
    and ix: "\<forall>i < length xs. names ! i =
              unique_name nm (bone_names arm1 @ take i names)
                (make_derived_name nm (snd (xs ! i)) ''mch'')"
    by blast
  have "\<forall>k < length (x # xs). (?n # names) ! k =
          unique_name nm (bone_names arm @ take k (?n # names))
            (make_derived_name nm (snd ((x # xs) ! k)) ''mch'')"
  proof (intro allI impI)
    fix k assume k: "k < length (x # xs)"
    show "(?n # names) ! k =
          unique_name nm (bone_names arm @ take k (?n # names))
            (make_derived_name nm (snd ((x # xs) ! k)) ''mch'')"
    proof (cases k)
      case 0
      then show ?thesis by (simp add: x)
    next
      case (Suc j)
      with k have "j < length xs" by simp
      with ix have "names ! j = unique_name nm (bone_names arm1 @ take j names)
                (make_derived_name nm (snd (xs ! j)) ''mch'')" by blast
      then show ?thesis by (simp add: Suc n1)
    qed
  qed
  then show ?case
    using 1 2 l n1 n2 c1 c2 by (simp add: x)
qed

lemma zip_count_props:
  "length (zip_count n xs) = length xs"
  "map snd (zip_count n xs) = xs"
  "i < length xs \<Longrightarrow> zip_count n xs ! i = (n + i, xs ! i)"
  by (simp_all add: zip_count_def)

text \<open>
  Claim C2. For a chain of \<open>N \<ge> 3\<close> original bones that the armature has (and a base
  bone that it has), \<open>make_follow_chain\<close> returns normally and creates exactly
  \<open>N - 1\<close> follow bones: the armature gains exactly the bones listed in
  \<open>mch.follow\<close>, in this order, and follow bone \<open>i\<close> is the bone made for original
  bone \<open>i + 1\<close>, under the name the host gives to the name derived from it.
\<close>

theorem make_follow_chain_count_order:
  assumes "set (org (bones self)) \<subseteq> set (bone_names (obj self))"
      and "base_bone self \<in> set (bone_names (obj self))"
      and "3 \<le> length (org (bones self))"
  shows "\<exists>self'. make_follow_chain nm self = Inr self'
           \<and> org (bones self') = org (bones self)
           \<and> length (mch_follow (bones self')) = length (org (bones self)) - 1
           \<and> bone_names (obj self') = bone_names (obj self) @ mch_follow (bones self')
           \<and> (\<forall>i < length (org (bones self)) - 1.
                mch_follow (bones self') ! i =
                  unique_name nm (bone_names (obj self) @ take i (mch_follow (bones self')))
                    (make_derived_name nm (org (bones self) ! (i + 1)) ''mch''))"
proof -
  let ?xs = "zip_count 1 (tl (org (bones self)))"
  have s: "snd ` set ?xs \<subseteq> set (bone_names (obj self))"
  proof -
    have "snd ` set ?xs = set (map snd ?xs)" by simp
    also have "\<dots> = set (tl (org (bones self)))" by (simp only: zip_count_props)
    also have "\<dots> \<subseteq> set (org (bones self))" by (cases "org (bones self)") auto
    finally show ?thesis using assms(1) by blast
  qed
  from map_list_follow [OF s assms(2)] obtain names arm' where
    1: "map_list (\<lambda>(i, org_bone). make_mch_follow_bone nm (base_bone self) i org_bone) ?xs (obj self)
          = Inr (names, arm')"
    and l: "length names = length ?xs"
    and n: "bone_names arm' = bone_names (obj self) @ names"
    and ix: "\<forall>i < length ?xs. names ! i =
              unique_name nm (bone_names (obj self) @ take i names)
                (make_derived_name nm (snd (?xs ! i)) ''mch'')"
    by blast
  have len: "length ?xs = length (org (bones self)) - 1"
    by (simp add: zip_count_props)
  have nth: "snd (?xs ! i) = org (bones self) ! (i + 1)" if "i < length (org (bones self)) - 1" for i
    using that by (simp add: zip_count_props nth_tl)
  show ?thesis
    using 1 l n ix len nth by (simp add: make_follow_chain_def)
qed


lemma make_constraint_ok:
  assumes "owner \<in> set (bone_names arm)"
  shows "make_constraint arm owner ctype subtarget influence =
           Inr (arm\<lparr>constraints := constraints arm @
                  [\<lparr>con_owner = owner, con_type = ctype, con_subtarget = subtarget,
                    con_influence = influence\<rparr>]\<rparr>)"
  using get_bone_Some_ex [OF assms] by (auto simp: make_constraint_def)

lemma int_truediv_ok:
  assumes "0 < a" "a < b"
  shows "int_truediv a b = Inr (round_double (of_int a / of_int b))"
proof -
  let ?q = "of_int a / of_int b :: rat"
  have q: "0 < ?q" "?q < 1" using assms by simp_all
  have "\<bar>round_double ?q - ?q\<bar> \<le> 1 / 2 ^ 54"
    by (rule round_double_error [OF q])
  moreover have "(1 / 2 ^ 54 :: rat) < 1" by simp
  ultimately have "\<bar>round_double ?q\<bar> < 2" using q by linarith
  moreover have "(2::rat) powi 1 \<le> 2 powi 1024"
    by (intro power_int_increasing) simp_all
  ultimately have "\<not> 2 powi 1024 \<le> \<bar>round_double ?q\<bar>" by simp
  moreover have "b \<noteq> 0" using assms by simp
  ultimately show ?thesis by (simp add: int_truediv_def Let_def)
qed

lemma follow_influence_ok:
  assumes "i + 1 < N"
  shows "follow_influence i N =
           Inr (round_double (1 - round_double ((1 + of_nat i) / of_nat N)))"
proof -
  have "0 < 1 + int i" "1 + int i < int N" using assms by simp_all
  from int_truediv_ok [OF this] show ?thesis
    by (simp add: follow_influence_def float_sub_def)
qed

lemma for_each_constraints:
  assumes "snd ` set ps \<subseteq> set (bone_names arm)" "\<forall>i \<in> fst ` set ps. i + 1 < N"
  shows "for_each
           (\<lambda>(i, mch) arm.
              case follow_influence i N of
                Inl e \<Rightarrow> Inl e
              | Inr influence \<Rightarrow>
                  make_constraint arm mch ''COPY_TRANSFORMS'' master influence)
           ps arm =
         Inr (arm\<lparr>constraints := constraints arm @
                map (\<lambda>(i, mch). \<lparr>con_owner = mch, con_type = ''COPY_TRANSFORMS'',
                                  con_subtarget = master,
                                  con_influence =
                                    round_double (1 - round_double ((1 + of_nat i) / of_nat N))\<rparr>)
                  ps\<rparr>)"
  using assms
proof (induction ps arbitrary: arm)
  case Nil
  then show ?case by simp
next
  case (Cons p ps)
  obtain i mch where p: "p = (i, mch)" by (cases p)
  have m: "mch \<in> set (bone_names arm)" using Cons.prems(1) p by simp
  have i: "i + 1 < N" using Cons.prems(2) p by simp
  let ?arm1 = "arm\<lparr>constraints := constraints arm @
                  [\<lparr>con_owner = mch, con_type = ''COPY_TRANSFORMS'', con_subtarget = master,
                    con_influence =
                      round_double (1 - round_double ((1 + of_nat i) / of_nat N))\<rparr>]\<rparr>"
  have a: "snd ` set ps \<subseteq> set (bone_names ?arm1)"
    using Cons.prems(1) by (simp add: bone_names_def)
  have b: "\<forall>i \<in> fst ` set ps. i + 1 < N"
    using Cons.prems(2) by simp
  from Cons.IH [OF a b] show ?case
    by (simp add: p follow_influence_ok [OF i] make_constraint_ok [OF m])
qed

lemma rig_follow_chain_run:
  assumes "length (org (bones self)) = N"
      and "length (mch_follow (bones self)) < N"
      and "ctrl_master (bones self) = Some master"
      and "set (mch_follow (bones self)) \<subseteq> set (bone_names (obj self))"
  shows "rig_follow_chain self =
           Inr (self\<lparr>obj := (obj self)\<lparr>constraints := constraints (obj self) @
                  map (\<lambda>(i, mch). \<lparr>con_owner = mch, con_type = ''COPY_TRANSFORMS'',
                                    con_subtarget = master,
                                    con_influence =
                                      round_double (1 - round_double ((1 + of_nat i) / of_nat N))\<rparr>)
                    (enumerate_list (mch_follow (bones self)))\<rparr>\<rparr>)"
proof -
  let ?ps = "enumerate_list (mch_follow (bones self))"
  have sp: "snd ` set ?ps \<subseteq> set (bone_names (obj self))"
  proof -
    have "snd ` set ?ps = set (map snd ?ps)" by simp
    also have "\<dots> = set (mch_follow (bones self))"
      by (simp only: enumerate_list_def zip_count_props)
    finally show ?thesis using assms(4) by simp
  qed
  have ix: "\<forall>i \<in> fst ` set ?ps. i + 1 < N"
  proof
    fix i assume "i \<in> fst ` set ?ps"
    then have "i \<in> set [0 ..< 0 + length (mch_follow (bones self))]"
      by (auto simp: enumerate_list_def zip_count_def dest: set_zip_leftD)
    then show "i + 1 < N" using assms(2) by simp
  qed
  from for_each_constraints [OF sp ix, of master] show ?thesis
    by (simp add: rig_follow_chain_def assms(1,3) Let_def)
qed

lemma influence_three:
  "round_double (1 - round_double ((1 + of_nat 0) / of_nat 3)) = 6004799503160662 / 2 ^ 53"
  "round_double (1 - round_double ((1 + of_nat 1) / of_nat 3)) = 3002399751580331 / 2 ^ 53"
proof -
  have "(1 + of_nat 0) / of_nat 3 = (1/3 :: rat)" "(1 + of_nat 1) / of_nat 3 = (2/3 :: rat)"
    by simp_all
  then show
    "round_double (1 - round_double ((1 + of_nat 0) / of_nat 3)) = 6004799503160662 / 2 ^ 53"
    "round_double (1 - round_double ((1 + of_nat 1) / of_nat 3)) = 3002399751580331 / 2 ^ 53"
    by (simp_all only: rd_third rd_one_minus_third rd_two_thirds rd_one_minus_two_thirds)
qed

lemma influence_error:
  fixes N i :: nat
  assumes "i + 1 < N" "N < 2 ^ 52"
  shows "\<bar>round_double (1 - round_double ((1 + of_nat i) / of_nat N))
           - (1 - (1 + of_nat i) / of_nat N)\<bar> \<le> 1 / 2 ^ 53"
proof -
  let ?q = "(1 + of_nat i) / of_nat N :: rat"
  let ?d = "1 / of_nat N :: rat"
  let ?x = "round_double ?q"
  have Np: "(0::rat) < of_nat N" using assms(1) by simp
  have "(of_nat N :: rat) < of_nat (2 ^ 52)" using assms(2) by (simp only: of_nat_less_iff)
  then have Nlt: "(of_nat N :: rat) < 2 ^ 52" by simp
  have d: "1 / 2 ^ 52 < ?d"
    using Np Nlt by (simp add: field_simps)
  have c: "(1 / 2 ^ 54 :: rat) < 1 / 2 ^ 52" "(1 / 2 ^ 54 :: rat) + 1 / 2 ^ 54 = 1 / 2 ^ 53"
    by simp_all
  have qlo: "?d \<le> ?q"
    using Np by (intro divide_right_mono) simp_all
  have "(1 + of_nat i :: rat) \<le> of_nat N - 1"
  proof -
    have "i + 2 \<le> N" using assms(1) by simp
    then have "(of_nat (i + 2) :: rat) \<le> of_nat N" by (simp only: of_nat_le_iff)
    then show ?thesis by simp
  qed
  then have "?q \<le> (of_nat N - 1) / of_nat N"
    using Np by (intro divide_right_mono) simp_all
  also have "\<dots> = 1 - ?d" using Np by (simp add: diff_divide_distrib)
  finally have qhi: "?q \<le> 1 - ?d" .
  have d0: "0 < ?d" using Np by simp
  have q: "0 < ?q" "?q < 1" using qlo qhi d0 by linarith+
  have ex: "\<bar>?x - ?q\<bar> \<le> 1 / 2 ^ 54" by (rule round_double_error [OF q])
  have x: "0 < 1 - ?x" "1 - ?x < 1" using ex qlo qhi d c by linarith+
  have ey: "\<bar>round_double (1 - ?x) - (1 - ?x)\<bar> \<le> 1 / 2 ^ 54"
    by (rule round_double_error [OF x])
  from ex ey c(2) show ?thesis by linarith
qed

lemma influence_facts:
  fixes N :: nat
  assumes "3 \<le> N" "N < 2 ^ 52"
  shows "i < j \<Longrightarrow> j + 1 < N \<Longrightarrow>
           round_double (1 - round_double ((1 + of_nat j) / of_nat N))
             < round_double (1 - round_double ((1 + of_nat i) / of_nat N))"
    and "round_double (1 - round_double ((1 + of_nat 0) / of_nat N)) < 1"
    and "\<bar>round_double (1 - round_double ((1 + of_nat (N - 2)) / of_nat N)) - 1 / of_nat N\<bar>
           \<le> 1 / 2 ^ 53"
    and "i + 1 < N \<Longrightarrow> 0 < round_double (1 - round_double ((1 + of_nat i) / of_nat N))"
proof -
  let ?d = "1 / of_nat N :: rat"
  have Np: "(0::rat) < of_nat N" using assms(1) by simp
  have "(of_nat N :: rat) < of_nat (2 ^ 52)" using assms(2) by (simp only: of_nat_less_iff)
  then have Nlt: "(of_nat N :: rat) < 2 ^ 52" by simp
  have d: "1 / 2 ^ 52 < ?d"
    using Np Nlt by (simp add: field_simps)
  have c: "(1 / 2 ^ 53 :: rat) + 1 / 2 ^ 53 = 1 / 2 ^ 52" "(0::rat) < 1 / 2 ^ 53"
    by simp_all
  show "round_double (1 - round_double ((1 + of_nat j) / of_nat N))
          < round_double (1 - round_double ((1 + of_nat i) / of_nat N))"
    if "i < j" "j + 1 < N"
  proof -
    have i: "i + 1 < N" using that by simp
    have "(1 + of_nat i + 1 :: rat) \<le> 1 + of_nat j"
    proof -
      have "i + 1 \<le> j" using that(1) by simp
      then have "(of_nat (i + 1) :: rat) \<le> of_nat j" by (simp only: of_nat_le_iff)
      then show ?thesis by simp
    qed
    then have "(1 + of_nat i + 1) / of_nat N \<le> (1 + of_nat j) / (of_nat N :: rat)"
      using Np by (intro divide_right_mono) simp_all
    then have gap: "(1 + of_nat i) / of_nat N + ?d \<le> (1 + of_nat j) / (of_nat N :: rat)"
      by (simp add: add_divide_distrib)
    from influence_error [OF i assms(2)] influence_error [OF that(2) assms(2)] gap d c
    show ?thesis by linarith
  qed
  have z: "0 + 1 < N" using assms(1) by simp
  have "(1 + of_nat 0) / of_nat N = ?d" by simp
  with influence_error [OF z assms(2)] d c
  show "round_double (1 - round_double ((1 + of_nat 0) / of_nat N)) < 1"
    by linarith
  have l: "N - 2 + 1 < N" using assms(1) by simp
  have "(1 + of_nat (N - 2) :: rat) = of_nat N - 1"
    using assms(1) by (simp add: of_nat_diff)
  then have "(1 + of_nat (N - 2)) / of_nat N = (of_nat N - 1) / (of_nat N :: rat)"
    by (simp only:)
  also have "\<dots> = 1 - ?d" using Np by (simp add: diff_divide_distrib)
  finally have "1 - (1 + of_nat (N - 2)) / of_nat N = ?d" by simp
  with influence_error [OF l assms(2)]
  show "\<bar>round_double (1 - round_double ((1 + of_nat (N - 2)) / of_nat N)) - 1 / of_nat N\<bar>
          \<le> 1 / 2 ^ 53"
    by (simp only:)
  show "0 < round_double (1 - round_double ((1 + of_nat i) / of_nat N))" if "i + 1 < N"
  proof -
    have "(1 + of_nat i :: rat) \<le> of_nat N - 1"
    proof -
      have "i + 2 \<le> N" using that by simp
      then have "(of_nat (i + 2) :: rat) \<le> of_nat N" by (simp only: of_nat_le_iff)
      then show ?thesis by simp
    qed
    then have "(1 + of_nat i) / of_nat N \<le> (of_nat N - 1) / (of_nat N :: rat)"
      using Np by (intro divide_right_mono) simp_all
    also have "\<dots> = 1 - ?d" using Np by (simp add: diff_divide_distrib)
    finally have "(1 + of_nat i) / of_nat N \<le> 1 - ?d" .
    with influence_error [OF that assms(2)] d c show ?thesis by linarith
  qed
qed

text \<open>
  Claim C1, amended. For a chain of \<open>N\<close> original bones, \<open>3 \<le> N < 2 ^ 52\<close>, with its
  \<open>N - 1\<close> follow bones, \<open>rig_follow_chain\<close> returns normally and adds one
  copy-transforms constraint per follow bone, targeting the master control. The
  influence on follow bone \<open>i\<close> is the double that line 96 computes: the double
  nearest to \<open>1 - q\<close>, for the double \<open>q\<close> nearest to \<open>(i + 1) / N\<close>; it differs from
  \<open>1 - (i + 1) / N\<close> by at most \<open>2 ^ -53\<close>. The influences decrease strictly with
  \<open>i\<close>; that of follow bone 0 is the largest and is below 1; that of follow bone
  \<open>N - 2\<close> differs from \<open>1 / N\<close> by at most \<open>2 ^ -53\<close>; all are positive. For \<open>N = 3\<close>
  the two influences are \<open>6004799503160662 / 2 ^ 53\<close> and
  \<open>3002399751580331 / 2 ^ 53\<close>, which Python prints as 0.6666666666666667 and
  0.33333333333333337.
\<close>

theorem rig_follow_chain_influence:
  assumes N: "length (org (bones self)) = N" "3 \<le> N" "N < 2 ^ 52"
      and F: "length (mch_follow (bones self)) = N - 1"
      and M: "ctrl_master (bones self) = Some master"
      and E: "set (mch_follow (bones self)) \<subseteq> set (bone_names (obj self))"
  shows "\<exists>self' cs. rig_follow_chain self = Inr self'
           \<and> constraints (obj self') = constraints (obj self) @ cs
           \<and> length cs = N - 1
           \<and> (\<forall>i < N - 1. cs ! i =
                 \<lparr>con_owner = mch_follow (bones self) ! i, con_type = ''COPY_TRANSFORMS'',
                  con_subtarget = master,
                  con_influence =
                    round_double (1 - round_double ((of_nat i + 1) / of_nat N))\<rparr>)
           \<and> (\<forall>i < N - 1.
                 \<bar>con_influence (cs ! i) - (1 - (of_nat i + 1) / of_nat N)\<bar> \<le> 1 / 2 ^ 53)
           \<and> (\<forall>i j. i < j \<and> j < N - 1 \<longrightarrow> con_influence (cs ! j) < con_influence (cs ! i))
           \<and> con_influence (cs ! 0) < 1
           \<and> (\<forall>i < N - 1. con_influence (cs ! i) \<le> con_influence (cs ! 0))
           \<and> \<bar>con_influence (cs ! (N - 2)) - 1 / of_nat N\<bar> \<le> 1 / 2 ^ 53
           \<and> (\<forall>i < N - 1. 0 < con_influence (cs ! i))
           \<and> (N = 3 \<longrightarrow> map con_influence cs =
                 [6004799503160662 / 2 ^ 53, 3002399751580331 / 2 ^ 53])"
proof -
  let ?follow = "mch_follow (bones self)"
  let ?ps = "enumerate_list ?follow"
  let ?y = "\<lambda>i. round_double (1 - round_double ((1 + of_nat i) / (of_nat N :: rat)))"
  let ?g = "\<lambda>(i, mch). \<lparr>con_owner = mch, con_type = ''COPY_TRANSFORMS'',
                          con_subtarget = master, con_influence = ?y i\<rparr>"
  let ?cs = "map ?g ?ps"
  have FN: "length ?follow < N" using F N(2) by simp
  have run: "rig_follow_chain self =
               Inr (self\<lparr>obj := (obj self)\<lparr>constraints := constraints (obj self) @ ?cs\<rparr>\<rparr>)"
    by (rule rig_follow_chain_run [OF N(1) FN M E])
  have len: "length ?cs = N - 1"
    by (simp add: enumerate_list_def zip_count_props F)
  have nth: "?cs ! i = \<lparr>con_owner = ?follow ! i, con_type = ''COPY_TRANSFORMS'',
                  con_subtarget = master,
                  con_influence = round_double (1 - round_double ((of_nat i + 1) / of_nat N))\<rparr>"
    if "i < N - 1" for i
    using that by (simp add: enumerate_list_def zip_count_props F add.commute)
  have infl: "con_influence (?cs ! i) = ?y i" if "i < N - 1" for i
    using nth [OF that] by (simp add: add.commute)
  have err: "\<forall>i < N - 1.
               \<bar>con_influence (?cs ! i) - (1 - (of_nat i + 1) / of_nat N)\<bar> \<le> 1 / 2 ^ 53"
  proof (intro allI impI)
    fix i assume i: "i < N - 1"
    then have "i + 1 < N" by simp
    from influence_error [OF this N(3)]
    show "\<bar>con_influence (?cs ! i) - (1 - (of_nat i + 1) / of_nat N)\<bar> \<le> 1 / 2 ^ 53"
      by (simp add: infl [OF i] add.commute)
  qed
  have dec: "\<forall>i j. i < j \<and> j < N - 1 \<longrightarrow> con_influence (?cs ! j) < con_influence (?cs ! i)"
  proof (intro allI impI)
    fix i j assume a: "i < j \<and> j < N - 1"
    then have i: "i < N - 1" and j: "j < N - 1" and j1: "j + 1 < N" and ij: "i < j"
      by linarith+
    from influence_facts(1) [OF N(2,3) ij j1]
    show "con_influence (?cs ! j) < con_influence (?cs ! i)"
      by (simp only: infl [OF i] infl [OF j])
  qed
  have z: "0 < N - 1" "N - 2 < N - 1" using N(2) by simp_all
  have first: "con_influence (?cs ! 0) < 1"
    using influence_facts(2) [OF N(2,3)] by (simp only: infl [OF z(1)])
  have largest: "\<forall>i < N - 1. con_influence (?cs ! i) \<le> con_influence (?cs ! 0)"
  proof (intro allI impI)
    fix i assume i: "i < N - 1"
    show "con_influence (?cs ! i) \<le> con_influence (?cs ! 0)"
    proof (cases i)
      case 0
      then show ?thesis by simp
    next
      case (Suc k)
      with dec i have "con_influence (?cs ! i) < con_influence (?cs ! 0)" by blast
      then show ?thesis by simp
    qed
  qed
  have last: "\<bar>con_influence (?cs ! (N - 2)) - 1 / of_nat N\<bar> \<le> 1 / 2 ^ 53"
    using influence_facts(3) [OF N(2,3)] by (simp only: infl [OF z(2)])
  have pos: "\<forall>i < N - 1. 0 < con_influence (?cs ! i)"
  proof (intro allI impI)
    fix i assume i: "i < N - 1"
    then have "i + 1 < N" by simp
    from influence_facts(4) [OF N(2,3) this] show "0 < con_influence (?cs ! i)"
      by (simp only: infl [OF i])
  qed
  have three: "N = 3 \<longrightarrow> map con_influence ?cs =
                 [6004799503160662 / 2 ^ 53, 3002399751580331 / 2 ^ 53]"
  proof
    assume n3: "N = 3"
    with len have l2: "length (map con_influence ?cs) = 2" by simp
    have o: "1 < N - 1" using n3 by simp
    have l0: "0 < length ?cs" and l1: "1 < length ?cs"
      unfolding len by (rule z(1), rule o)
    have "con_influence (?cs ! 0) = ?y 0" by (rule infl [OF z(1)])
    also have "?y 0 = 6004799503160662 / 2 ^ 53"
      unfolding n3 by (rule influence_three(1))
    finally have i0: "con_influence (?cs ! 0) = 6004799503160662 / 2 ^ 53" .
    have "con_influence (?cs ! 1) = ?y 1" by (rule infl [OF o])
    also have "?y 1 = 3002399751580331 / 2 ^ 53"
      unfolding n3 by (rule influence_three(2))
    finally have i1: "con_influence (?cs ! 1) = 3002399751580331 / 2 ^ 53" .
    have a: "map con_influence ?cs ! 0 = 6004799503160662 / 2 ^ 53"
      unfolding nth_map [OF l0] by (rule i0)
    have b: "map con_influence ?cs ! 1 = 3002399751580331 / 2 ^ 53"
      unfolding nth_map [OF l1] by (rule i1)
    show "map con_influence ?cs = [6004799503160662 / 2 ^ 53, 3002399751580331 / 2 ^ 53]"
    proof (rule nth_equalityI)
      show "length (map con_influence ?cs)
              = length [6004799503160662 / 2 ^ 53, 3002399751580331 / 2 ^ 53 :: rat]"
        using l2 by simp
      fix i assume "i < length (map con_influence ?cs)"
      then have "i = 0 \<or> i = 1" using l2 by auto
      then show "map con_influence ?cs ! i
                   = [6004799503160662 / 2 ^ 53, 3002399751580331 / 2 ^ 53] ! i"
        using a b by auto
    qed
  qed
  from run len nth err dec first largest last pos three show ?thesis
    by (intro exI [of _ "self\<lparr>obj := (obj self)\<lparr>constraints := constraints (obj self) @ ?cs\<rparr>\<rparr>"]
          exI [of _ ?cs]) simp
qed

lemma set_bone_parent_ok:
  assumes "name \<in> set (bone_names arm)"
      and "case p of None \<Rightarrow> True | Some q \<Rightarrow> q \<in> set (bone_names arm)"
  shows "set_bone_parent arm name p = Inr (update_bone name (\<lambda>b. b\<lparr>parent := p\<rparr>) arm)"
proof (cases p)
  case None
  then show ?thesis
    using get_bone_Some_ex [OF assms(1)] by (auto simp: set_bone_parent_def)
next
  case (Some q)
  with assms(2) have "q \<in> set (bone_names arm)" by simp
  from get_bone_Some_ex [OF this] get_bone_Some_ex [OF assms(1)] Some show ?thesis
    by (auto simp: set_bone_parent_def)
qed

lemma parent_of_update_bone:
  "parent_of (update_bone n (\<lambda>b. b\<lparr>parent := p\<rparr>) arm) m =
     (if m = n then map_option (\<lambda>_. p) (get_bone arm n) else parent_of arm m)"
  by (simp add: parent_of_def get_bone_update_bone option.map_comp comp_def)

lemma for_each_set_parent:
  assumes "fst ` set ps \<subseteq> set (bone_names arm)"
      and "\<forall>q. Some q \<in> snd ` set ps \<longrightarrow> q \<in> set (bone_names arm)"
      and "distinct (map fst ps)"
  shows "\<exists>arm'. for_each (\<lambda>(tweak, main) arm. set_bone_parent arm tweak main) ps arm = Inr arm'
           \<and> bone_names arm' = bone_names arm
           \<and> constraints arm' = constraints arm
           \<and> (\<forall>(t, p) \<in> set ps. parent_of arm' t = Some p)
           \<and> (\<forall>n. n \<notin> fst ` set ps \<longrightarrow> parent_of arm' n = parent_of arm n)"
  using assms
proof (induction ps arbitrary: arm)
  case Nil
  then show ?case by simp
next
  case (Cons x ps)
  obtain t p where x: "x = (t, p)" by (cases x)
  let ?arm1 = "update_bone t (\<lambda>b. b\<lparr>parent := p\<rparr>) arm"
  have t: "t \<in> set (bone_names arm)" using Cons.prems(1) x by simp
  have p: "case p of None \<Rightarrow> True | Some q \<Rightarrow> q \<in> set (bone_names arm)"
    using Cons.prems(2) x by (auto split: option.splits)
  have step: "set_bone_parent arm t p = Inr ?arm1"
    by (rule set_bone_parent_ok [OF t p])
  have n1: "bone_names ?arm1 = bone_names arm"
    by (simp add: bone_names_update_bone)
  have c1: "constraints ?arm1 = constraints arm"
    by (simp add: constraints_update_bone)
  have a: "fst ` set ps \<subseteq> set (bone_names ?arm1)"
    using Cons.prems(1) n1 by auto
  have b: "\<forall>q. Some q \<in> snd ` set ps \<longrightarrow> q \<in> set (bone_names ?arm1)"
    unfolding n1 using Cons.prems(2) by auto
  have d: "distinct (map fst ps)" and tn: "t \<notin> fst ` set ps"
    using Cons.prems(3) x by auto
  from Cons.IH [OF a b d] obtain arm' where
    run: "for_each (\<lambda>(tweak, main) arm. set_bone_parent arm tweak main) ps ?arm1 = Inr arm'"
    and n2: "bone_names arm' = bone_names ?arm1"
    and c2: "constraints arm' = constraints ?arm1"
    and set: "\<forall>(t, p) \<in> set ps. parent_of arm' t = Some p"
    and keep: "\<forall>n. n \<notin> fst ` set ps \<longrightarrow> parent_of arm' n = parent_of ?arm1 n"
    by blast
  obtain bt where bt: "get_bone arm t = Some bt"
    using get_bone_Some_ex [OF t] by blast
  have pt: "parent_of arm' t = Some p"
    using keep tn by (simp add: parent_of_update_bone bt)
  have keep': "\<forall>n. n \<notin> fst ` set (x # ps) \<longrightarrow> parent_of arm' n = parent_of arm n"
    using keep by (simp add: x parent_of_update_bone)
  show ?case
    using step run n1 n2 c1 c2 set pt keep' by (auto simp: x)
qed

text \<open>
  Claim C3. After \<open>parent_tweak_chain\<close>, tweak bone 0 has the master control as its
  parent, tweak bone \<open>k\<close> with \<open>1 \<le> k \<le> length follow\<close> has follow bone \<open>k - 1\<close>, and
  tweak bone \<open>length follow + 1\<close>, if there is one, has the parent bone of the rig:
  tweak bone \<open>k\<close> has the \<open>k\<close>-th element of \<open>[master, follow[0], follow[1], ..., root]\<close>.
  Bone names are unique in an armature, so the tweak bones are pairwise distinct; all
  bones named exist.
\<close>

theorem parent_tweak_chain_parents:
  assumes M: "ctrl_master (bones self) = Some master"
      and D: "distinct (ctrl_tweak (bones self))"
      and T: "set (ctrl_tweak (bones self)) \<subseteq> set (bone_names (obj self))"
      and P: "master \<in> set (bone_names (obj self))"
             "set (mch_follow (bones self)) \<subseteq> set (bone_names (obj self))"
             "case rig_parent_bone self of None \<Rightarrow> True
                | Some q \<Rightarrow> q \<in> set (bone_names (obj self))"
  shows "\<exists>self'. parent_tweak_chain self = Inr self'
           \<and> bones self' = bones self
           \<and> (\<forall>k < length (ctrl_tweak (bones self)).
                 (k = 0 \<longrightarrow> parent_of (obj self') (ctrl_tweak (bones self) ! k) = Some (Some master))
               \<and> (1 \<le> k \<and> k \<le> length (mch_follow (bones self)) \<longrightarrow>
                    parent_of (obj self') (ctrl_tweak (bones self) ! k) =
                      Some (Some (mch_follow (bones self) ! (k - 1))))
               \<and> (k = length (mch_follow (bones self)) + 1 \<longrightarrow>
                    parent_of (obj self') (ctrl_tweak (bones self) ! k) =
                      Some (rig_parent_bone self))
               \<and> (k < length (mch_follow (bones self)) + 2 \<longrightarrow>
                    parent_of (obj self') (ctrl_tweak (bones self) ! k) =
                      Some ((Some master # map Some (mch_follow (bones self))
                               @ [rig_parent_bone self]) ! k)))"
proof -
  let ?tweak = "ctrl_tweak (bones self)"
  let ?follow = "mch_follow (bones self)"
  let ?parents = "Some master # map Some ?follow @ [rig_parent_bone self]"
  let ?ps = "zip ?tweak ?parents"
  have a: "fst ` set ?ps \<subseteq> set (bone_names (obj self))"
    using T by (auto dest: set_zip_leftD)
  have b: "\<forall>q. Some q \<in> snd ` set ?ps \<longrightarrow> q \<in> set (bone_names (obj self))"
  proof (intro allI impI)
    fix q assume "Some q \<in> snd ` set ?ps"
    then have "Some q \<in> set ?parents" by (auto dest: set_zip_rightD)
    then show "q \<in> set (bone_names (obj self))"
      using P by (auto split: option.splits)
  qed
  have d: "distinct (map fst ?ps)"
    using D by (simp add: map_fst_zip_take)
  from for_each_set_parent [OF a b d] obtain arm' where
    run: "for_each (\<lambda>(tweak, main) arm. set_bone_parent arm tweak main) ?ps (obj self) = Inr arm'"
    and set: "\<forall>(t, p) \<in> set ?ps. parent_of arm' t = Some p"
    by blast
  define self' where "self' = self\<lparr>obj := arm'\<rparr>"
  have res: "parent_tweak_chain self = Inr self'"
    using run by (simp add: parent_tweak_chain_def M Let_def self'_def)
  have o: "arm' = obj self'" and bs: "bones self' = bones self"
    by (simp_all add: self'_def)
  have main: "parent_of arm' (?tweak ! k) = Some (?parents ! k)"
    if "k < length ?tweak" "k < length ?follow + 2" for k
  proof -
    have "k < length ?ps" using that by simp
    then have "?ps ! k \<in> set ?ps" by (rule nth_mem)
    moreover have "?ps ! k = (?tweak ! k, ?parents ! k)" using that by simp
    ultimately show ?thesis using set by auto
  qed
  have "\<forall>k < length ?tweak.
          (k = 0 \<longrightarrow> parent_of arm' (?tweak ! k) = Some (Some master))
        \<and> (1 \<le> k \<and> k \<le> length ?follow \<longrightarrow>
             parent_of arm' (?tweak ! k) = Some (Some (?follow ! (k - 1))))
        \<and> (k = length ?follow + 1 \<longrightarrow> parent_of arm' (?tweak ! k) = Some (rig_parent_bone self))
        \<and> (k < length ?follow + 2 \<longrightarrow> parent_of arm' (?tweak ! k) = Some (?parents ! k))"
  proof (intro allI impI conjI)
    fix k assume k: "k < length ?tweak"
    { assume "k = 0"
      with main [of 0] k show "parent_of arm' (?tweak ! k) = Some (Some master)" by simp }
    { assume r: "1 \<le> k \<and> k \<le> length ?follow"
      then obtain j where j: "k = Suc j" "j < length ?follow" by (cases k) auto
      from main [OF k] r have "parent_of arm' (?tweak ! k) = Some (?parents ! k)" by simp
      also have "?parents ! k = Some (?follow ! (k - 1))"
        using j by (simp add: nth_append)
      finally show "parent_of arm' (?tweak ! k) = Some (Some (?follow ! (k - 1)))" . }
    { assume r: "k = length ?follow + 1"
      from main [OF k] r have "parent_of arm' (?tweak ! k) = Some (?parents ! k)" by simp
      also have "?parents ! k = rig_parent_bone self"
        using r by (simp add: nth_append)
      finally show "parent_of arm' (?tweak ! k) = Some (rig_parent_bone self)" . }
    { assume "k < length ?follow + 2"
      with main [OF k] show "parent_of arm' (?tweak ! k) = Some (?parents ! k)" by simp }
  qed
  with res bs show ?thesis unfolding o by blast
qed

text \<open>
  Claim C4. When the chain has fewer than three bones, the instantiation of the rig
  fails with a configuration error that is appended to the build report; no rig
  instance is returned, so no stage runs and no bone is created, and the armature,
  with the bones of the other rigs, is the one given.
\<close>

theorem instantiate_rig_short_chain:
  assumes "length chain < 3"
  shows "instantiate_rig chain base rig_parent ps (report, arm) =
           ((report @ [MetarigError ''Input to rig type must be a chain of 3 or more bones.''],
             arm), None)"
  using assms by (simp add: instantiate_rig_def find_org_bones_def min_chain_length_def)

theorem instantiate_rig_short_chain_witness:
  "length [''ORG-tongue'', ''ORG-tongue.001''] < 3
     \<and> instantiate_rig [''ORG-tongue'', ''ORG-tongue.001''] ''ORG-tongue'' (Some ''root'')
         \<lparr>bbones = 10\<rparr> ([], sample_armature) =
       (([MetarigError ''Input to rig type must be a chain of 3 or more bones.''],
         sample_armature), None)"
proof -
  have h: "length [''ORG-tongue'', ''ORG-tongue.001''] < 3" by simp
  from instantiate_rig_short_chain [OF h, of "''ORG-tongue''" "Some ''root''" "\<lparr>bbones = 10\<rparr>"
      "[]" sample_armature] h
  show ?thesis by simp
qed

text \<open>
  Claim C8. The parameter \<open>bbones\<close> registered by \<open>add_parameters\<close> is an integer
  property with minimum 1 and default 10 (the layer option registered after it leaves
  \<open>bbones\<close> alone), and \<open>initialize\<close> copies the value of the parameter into the
  b-bone segment setting of the rig.
\<close>

theorem bbones_parameter:
  assumes "\<forall>p. map_of (layers_add_parameters p) ''bbones'' = map_of p ''bbones''"
  shows "(\<exists>prop. map_of (add_parameters layers_add_parameters params_group) ''bbones'' = Some prop
            \<and> prop_min prop = 1 \<and> prop_default prop = 10)
       \<and> bbone_segments (initialize super_initialize self) =
           Some (bbones (params (super_initialize self)))"
  using assms by (simp add: add_parameters_def initialize_def update_conv' Let_def)

theorem bbones_parameter_witness:
  "(\<forall>p. map_of (sample_layers p) ''bbones'' = map_of p ''bbones'')
     \<and> (\<exists>prop. map_of (add_parameters sample_layers []) ''bbones'' = Some prop
            \<and> prop_min prop = 1 \<and> prop_default prop = 10)
     \<and> bbone_segments (initialize (\<lambda>r. r) sample_rig) = Some 10"
proof -
  have h: "\<forall>p. map_of (sample_layers p) ''bbones'' = map_of p ''bbones''"
    by (simp add: sample_layers_def update_conv')
  from bbones_parameter [OF h, of "[]" "\<lambda>r. r" sample_rig] h show ?thesis
    by (simp add: sample_rig_def)
qed

subsection \<open>The sample rig\<close>

lemma list2_eq:
  "length xs = 2 \<Longrightarrow> xs ! 0 = a \<Longrightarrow> xs ! 1 = b \<Longrightarrow> xs = [a, b]"
  by (cases xs; cases "tl xs") auto

lemma sample_rig_fields:
  "org (bones sample_rig) = [''ORG-tongue'', ''ORG-tongue.001'', ''ORG-tongue.002'']"
  "base_bone sample_rig = ''ORG-tongue''"
  "bone_names (obj sample_rig) = [''root'', ''ORG-tongue'', ''ORG-tongue.001'', ''ORG-tongue.002'']"
  by (simp_all add: sample_rig_def sample_chain_def sample_armature_def sample_bone_def
        bone_names_def)

lemma sample_rig_generated_fields:
  "org (bones sample_rig_generated) = [''ORG-tongue'', ''ORG-tongue.001'', ''ORG-tongue.002'']"
  "mch_follow (bones sample_rig_generated) = [''MCH-tongue.001'', ''MCH-tongue.002'']"
  "ctrl_tweak (bones sample_rig_generated) =
     [''tweak_tongue'', ''tweak_tongue.001'', ''tweak_tongue.002'', ''tweak_tongue.003'']"
  "ctrl_master (bones sample_rig_generated) = Some ''tongue_master''"
  "rig_parent_bone sample_rig_generated = Some ''root''"
  "constraints (obj sample_rig_generated) = []"
  "bone_names (obj sample_rig_generated) =
     [''root'', ''ORG-tongue'', ''ORG-tongue.001'', ''ORG-tongue.002'', ''tongue_master'',
      ''MCH-tongue.001'', ''MCH-tongue.002'', ''tweak_tongue'', ''tweak_tongue.001'',
      ''tweak_tongue.002'', ''tweak_tongue.003'']"
  by (simp_all add: sample_rig_generated_def sample_rig_def sample_chain_def
        sample_armature_def sample_bone_def bone_names_def)



theorem make_follow_chain_count_order_witness:
  "set (org (bones sample_rig)) \<subseteq> set (bone_names (obj sample_rig))
     \<and> base_bone sample_rig \<in> set (bone_names (obj sample_rig))
     \<and> 3 \<le> length (org (bones sample_rig))
     \<and> (\<exists>self'. make_follow_chain sample_naming sample_rig = Inr self'
           \<and> mch_follow (bones self') = [''MCH-tongue.001'', ''MCH-tongue.002'']
           \<and> bone_names (obj self') =
               [''root'', ''ORG-tongue'', ''ORG-tongue.001'', ''ORG-tongue.002'',
                ''MCH-tongue.001'', ''MCH-tongue.002''])"
proof -
  have h1: "set (org (bones sample_rig)) \<subseteq> set (bone_names (obj sample_rig))"
    and h2: "base_bone sample_rig \<in> set (bone_names (obj sample_rig))"
    and h3: "3 \<le> length (org (bones sample_rig))"
    by (simp_all add: sample_rig_fields)
  from make_follow_chain_count_order [OF h1 h2 h3, of sample_naming] obtain self' where
    run: "make_follow_chain sample_naming sample_rig = Inr self'"
    and len: "length (mch_follow (bones self')) = length (org (bones sample_rig)) - 1"
    and names: "bone_names (obj self') = bone_names (obj sample_rig) @ mch_follow (bones self')"
    and ix: "\<forall>i < length (org (bones sample_rig)) - 1.
                mch_follow (bones self') ! i =
                  unique_name sample_naming
                    (bone_names (obj sample_rig) @ take i (mch_follow (bones self')))
                    (make_derived_name sample_naming (org (bones sample_rig) ! (i + 1)) ''mch'')"
    by blast
  have l2: "length (mch_follow (bones self')) = 2"
    using len by (simp add: sample_rig_fields)
  have "0 < length (org (bones sample_rig)) - 1" "1 < length (org (bones sample_rig)) - 1"
    by (simp_all add: sample_rig_fields)
  with ix have "mch_follow (bones self') ! 0 = ''MCH-tongue.001''"
    and "mch_follow (bones self') ! 1 = ''MCH-tongue.002''"
    by (simp_all add: sample_rig_fields(1) sample_naming_def)
  with l2 have f: "mch_follow (bones self') = [''MCH-tongue.001'', ''MCH-tongue.002'']"
    by (rule list2_eq)
  from run f names h1 h2 h3 show ?thesis
    by (simp add: sample_rig_fields(3))
qed

theorem rig_follow_chain_influence_witness:
  "length (org (bones sample_rig_generated)) = 3 \<and> (3 :: nat) \<le> 3 \<and> (3 :: nat) < 2 ^ 52
     \<and> length (mch_follow (bones sample_rig_generated)) = 3 - 1
     \<and> ctrl_master (bones sample_rig_generated) = Some ''tongue_master''
     \<and> set (mch_follow (bones sample_rig_generated))
           \<subseteq> set (bone_names (obj sample_rig_generated))
     \<and> (\<exists>self'. rig_follow_chain sample_rig_generated = Inr self'
           \<and> map con_owner (constraints (obj self')) = [''MCH-tongue.001'', ''MCH-tongue.002'']
           \<and> map con_influence (constraints (obj self')) =
               [6004799503160662 / 2 ^ 53, 3002399751580331 / 2 ^ 53]
           \<and> con_influence (constraints (obj self') ! 1)
               < con_influence (constraints (obj self') ! 0)
           \<and> con_influence (constraints (obj self') ! 0) < 1
           \<and> 0 < con_influence (constraints (obj self') ! 1)
           \<and> \<bar>con_influence (constraints (obj self') ! 1) - 1 / 3\<bar> \<le> 1 / 2 ^ 53)"
proof -
  have h1: "length (org (bones sample_rig_generated)) = 3" and h2: "(3 :: nat) \<le> 3"
    and h2b: "(3 :: nat) < 2 ^ 52"
    and h3: "length (mch_follow (bones sample_rig_generated)) = 3 - 1"
    and h4: "ctrl_master (bones sample_rig_generated) = Some ''tongue_master''"
    and h5: "set (mch_follow (bones sample_rig_generated))
               \<subseteq> set (bone_names (obj sample_rig_generated))"
    by (simp_all add: sample_rig_generated_fields)
  from rig_follow_chain_influence [OF h1 h2 h2b h3 h4 h5] obtain self' cs where
    run: "rig_follow_chain sample_rig_generated = Inr self'"
    and c: "constraints (obj self') = constraints (obj sample_rig_generated) @ cs"
    and len: "length cs = 3 - 1"
    and nth: "\<forall>i < 3 - 1. cs ! i =
                 \<lparr>con_owner = mch_follow (bones sample_rig_generated) ! i,
                  con_type = ''COPY_TRANSFORMS'', con_subtarget = ''tongue_master'',
                  con_influence =
                    round_double (1 - round_double ((of_nat i + 1) / of_nat 3))\<rparr>"
    and err: "\<forall>i < 3 - 1.
                 \<bar>con_influence (cs ! i) - (1 - (of_nat i + 1) / of_nat 3)\<bar> \<le> 1 / 2 ^ 53"
    and dec: "\<forall>i j. i < j \<and> j < 3 - 1 \<longrightarrow> con_influence (cs ! j) < con_influence (cs ! i)"
    and first: "con_influence (cs ! 0) < 1"
    and largest: "\<forall>i < 3 - 1. con_influence (cs ! i) \<le> con_influence (cs ! 0)"
    and last: "\<bar>con_influence (cs ! (3 - 2)) - 1 / of_nat 3\<bar> \<le> 1 / 2 ^ 53"
    and pos: "\<forall>i < 3 - 1. 0 < con_influence (cs ! i)"
    and three: "(3 :: nat) = 3 \<longrightarrow> map con_influence cs =
                  [6004799503160662 / 2 ^ 53, 3002399751580331 / 2 ^ 53]"
    by (elim exE conjE) (rule that; assumption)
  have cs: "constraints (obj self') = cs"
    using c by (simp add: sample_rig_generated_fields(6))
  from nth have n0: "con_owner (cs ! 0) = mch_follow (bones sample_rig_generated) ! 0"
    by simp
  from nth have n1: "con_owner (cs ! 1) = mch_follow (bones sample_rig_generated) ! 1"
    by simp
  have l2: "length (map con_owner cs) = 2" using len by simp
  have o0: "map con_owner cs ! 0 = ''MCH-tongue.001''"
    using len n0 by (simp add: sample_rig_generated_fields(2))
  have o1: "map con_owner cs ! 1 = ''MCH-tongue.002''"
    using len n1 by (simp add: sample_rig_generated_fields(2))
  have owners: "map con_owner cs = [''MCH-tongue.001'', ''MCH-tongue.002'']"
    using l2 o0 o1 by (rule list2_eq)
  have infl: "map con_influence cs = [6004799503160662 / 2 ^ 53, 3002399751580331 / 2 ^ 53]"
    using three by simp
  have "(0 :: nat) < 1 \<and> (1 :: nat) < 3 - 1" by simp
  with dec have d: "con_influence (cs ! 1) < con_influence (cs ! 0)" by blast
  have "(1 :: nat) < 3 - 1" by simp
  with pos have p: "0 < con_influence (cs ! 1)" by blast
  have l: "\<bar>con_influence (cs ! 1) - 1 / 3\<bar> \<le> 1 / 2 ^ 53"
    using last by simp
  have "rig_follow_chain sample_rig_generated = Inr self'
           \<and> map con_owner (constraints (obj self')) = [''MCH-tongue.001'', ''MCH-tongue.002'']
           \<and> map con_influence (constraints (obj self')) =
               [6004799503160662 / 2 ^ 53, 3002399751580331 / 2 ^ 53]
           \<and> con_influence (constraints (obj self') ! 1)
               < con_influence (constraints (obj self') ! 0)
           \<and> con_influence (constraints (obj self') ! 0) < 1
           \<and> 0 < con_influence (constraints (obj self') ! 1)
           \<and> \<bar>con_influence (constraints (obj self') ! 1) - 1 / 3\<bar> \<le> 1 / 2 ^ 53"
    unfolding cs using run owners infl d first p l by (intro conjI)
  then have "\<exists>self'. rig_follow_chain sample_rig_generated = Inr self'
           \<and> map con_owner (constraints (obj self')) = [''MCH-tongue.001'', ''MCH-tongue.002'']
           \<and> map con_influence (constraints (obj self')) =
               [6004799503160662 / 2 ^ 53, 3002399751580331 / 2 ^ 53]
           \<and> con_influence (constraints (obj self') ! 1)
               < con_influence (constraints (obj self') ! 0)
           \<and> con_influence (constraints (obj self') ! 0) < 1
           \<and> 0 < con_influence (constraints (obj self') ! 1)
           \<and> \<bar>con_influence (constraints (obj self') ! 1) - 1 / 3\<bar> \<le> 1 / 2 ^ 53"
    by (rule exI)
  with h1 h2 h2b h3 h4 h5 show ?thesis by (intro conjI)
qed

text \<open>
  Claim C1 as stated fails: the influences are doubles, and the equalities of the
  claim hold for none of them in the sample chain of three bones. Line 96 gives the
  last follow bone the influence \<open>3002399751580331 / 2 ^ 53\<close>
  (0.33333333333333337), not \<open>1/3\<close>, and the first follow bone
  \<open>6004799503160662 / 2 ^ 53\<close> (0.6666666666666667), not \<open>2/3\<close>. And for a chain of
  \<open>2 ^ 54\<close> bones the expression of line 96 gives follow bone 0 the influence 1.0,
  which is not below 1.
\<close>

theorem rig_follow_chain_exact_influence_counterexample:
  "length (org (bones sample_rig_generated)) = 3
     \<and> follow_influences sample_rig_generated =
         Inr [6004799503160662 / 2 ^ 53, 3002399751580331 / 2 ^ 53]
     \<and> (6004799503160662 / 2 ^ 53 :: rat) \<noteq> 2/3
     \<and> (3002399751580331 / 2 ^ 53 :: rat) \<noteq> 1/3
     \<and> follow_influence 0 (2 ^ 54) = Inr 1"
proof -
  have h1: "length (org (bones sample_rig_generated)) = 3"
    and h2: "length (mch_follow (bones sample_rig_generated)) < 3"
    and h3: "ctrl_master (bones sample_rig_generated) = Some ''tongue_master''"
    and h4: "set (mch_follow (bones sample_rig_generated))
               \<subseteq> set (bone_names (obj sample_rig_generated))"
    by (simp_all add: sample_rig_generated_fields)
  have e: "enumerate_list (mch_follow (bones sample_rig_generated)) =
             [(0, ''MCH-tongue.001''), (1, ''MCH-tongue.002'')]"
    by (simp add: sample_rig_generated_fields(2) enumerate_list_def zip_count_def upt_rec)
  have "follow_influences sample_rig_generated =
          Inr [round_double (1 - round_double ((1 + of_nat 0) / of_nat 3)),
               round_double (1 - round_double ((1 + of_nat 1) / of_nat 3))]"
    unfolding follow_influences_def rig_follow_chain_run [OF h1 h2 h3 h4] e
    by (simp add: sample_rig_generated_fields(6))
  then have a: "follow_influences sample_rig_generated =
             Inr [6004799503160662 / 2 ^ 53, 3002399751580331 / 2 ^ 53]"
    by (simp only: influence_three)
  have "(0::nat) + 1 < 2 ^ 54" by simp
  from follow_influence_ok [OF this]
  have "follow_influence 0 (2 ^ 54) =
          Inr (round_double (1 - round_double ((1 + of_nat 0) / of_nat (2 ^ 54))))" .
  moreover have "(1 + of_nat 0) / of_nat (2 ^ 54) = (1 / 2 ^ 54 :: rat)" by simp
  ultimately have b: "follow_influence 0 (2 ^ 54) = Inr 1"
    by (simp only: rd_tiny rd_one_minus_tiny)
  have c: "(6004799503160662 / 2 ^ 53 :: rat) \<noteq> 2/3" "(3002399751580331 / 2 ^ 53 :: rat) \<noteq> 1/3"
    by simp_all
  from h1 a b c show ?thesis by (intro conjI)
qed

theorem parent_tweak_chain_parents_witness:
  "ctrl_master (bones sample_rig_generated) = Some ''tongue_master''
     \<and> distinct (ctrl_tweak (bones sample_rig_generated))
     \<and> set (ctrl_tweak (bones sample_rig_generated)) \<subseteq> set (bone_names (obj sample_rig_generated))
     \<and> ''tongue_master'' \<in> set (bone_names (obj sample_rig_generated))
     \<and> set (mch_follow (bones sample_rig_generated)) \<subseteq> set (bone_names (obj sample_rig_generated))
     \<and> rig_parent_bone sample_rig_generated = Some ''root''
     \<and> ''root'' \<in> set (bone_names (obj sample_rig_generated))
     \<and> (\<exists>self'. parent_tweak_chain sample_rig_generated = Inr self'
           \<and> parent_of (obj self') ''tweak_tongue'' = Some (Some ''tongue_master'')
           \<and> parent_of (obj self') ''tweak_tongue.001'' = Some (Some ''MCH-tongue.001'')
           \<and> parent_of (obj self') ''tweak_tongue.002'' = Some (Some ''MCH-tongue.002'')
           \<and> parent_of (obj self') ''tweak_tongue.003'' = Some (Some ''root''))"
proof -
  have h1: "ctrl_master (bones sample_rig_generated) = Some ''tongue_master''"
    and h2: "distinct (ctrl_tweak (bones sample_rig_generated))"
    and h3: "set (ctrl_tweak (bones sample_rig_generated))
               \<subseteq> set (bone_names (obj sample_rig_generated))"
    and h4: "''tongue_master'' \<in> set (bone_names (obj sample_rig_generated))"
    and h5: "set (mch_follow (bones sample_rig_generated))
               \<subseteq> set (bone_names (obj sample_rig_generated))"
    and h6: "case rig_parent_bone sample_rig_generated of None \<Rightarrow> True
               | Some q \<Rightarrow> q \<in> set (bone_names (obj sample_rig_generated))"
    and h7: "rig_parent_bone sample_rig_generated = Some ''root''"
    and h8: "''root'' \<in> set (bone_names (obj sample_rig_generated))"
    by (simp_all add: sample_rig_generated_fields)
  from parent_tweak_chain_parents [OF h1 h2 h3 h4 h5 h6] obtain self' where
    run: "parent_tweak_chain sample_rig_generated = Inr self'"
    and ps: "\<forall>k < length (ctrl_tweak (bones sample_rig_generated)).
                 (k = 0 \<longrightarrow> parent_of (obj self') (ctrl_tweak (bones sample_rig_generated) ! k)
                              = Some (Some ''tongue_master''))
               \<and> (1 \<le> k \<and> k \<le> length (mch_follow (bones sample_rig_generated)) \<longrightarrow>
                    parent_of (obj self') (ctrl_tweak (bones sample_rig_generated) ! k) =
                      Some (Some (mch_follow (bones sample_rig_generated) ! (k - 1))))
               \<and> (k = length (mch_follow (bones sample_rig_generated)) + 1 \<longrightarrow>
                    parent_of (obj self') (ctrl_tweak (bones sample_rig_generated) ! k) =
                      Some (rig_parent_bone sample_rig_generated))
               \<and> (k < length (mch_follow (bones sample_rig_generated)) + 2 \<longrightarrow>
                    parent_of (obj self') (ctrl_tweak (bones sample_rig_generated) ! k) =
                      Some ((Some ''tongue_master'' # map Some (mch_follow (bones sample_rig_generated))
                               @ [rig_parent_bone sample_rig_generated]) ! k))"
    by blast
  from ps [rule_format, of 0] have p0: "parent_of (obj self') ''tweak_tongue'' = Some (Some ''tongue_master'')"
    by (simp add: sample_rig_generated_fields)
  from ps [rule_format, of 1] have p1: "parent_of (obj self') ''tweak_tongue.001'' = Some (Some ''MCH-tongue.001'')"
    by (simp add: sample_rig_generated_fields)
  from ps [rule_format, of 2] have p2: "parent_of (obj self') ''tweak_tongue.002'' = Some (Some ''MCH-tongue.002'')"
    by (simp add: sample_rig_generated_fields)
  from ps [rule_format, of 3] have p3: "parent_of (obj self') ''tweak_tongue.003'' = Some (Some ''root'')"
    by (simp add: sample_rig_generated_fields)
  from run p0 p1 p2 p3 h1 h2 h3 h4 h5 h7 h8 show ?thesis by blast
qed

end
